theory Spec2Isabelle
  imports Main "HOL-Library.AList"
begin

section \<open>Strings\<close>

text \<open>
  Go strings are byte sequences; they are modelled as \<^typ>\<open>string\<close> (lists of 8-bit
  characters). Every literal the patterns below look for is ASCII, and an ASCII byte
  never occurs inside a multi-byte UTF-8 sequence, so matching byte by byte finds the
  same matches as Go's matching rune by rune.
\<close>

abbreviation LF :: string where
  "LF \<equiv> [CHR 0x0A]"

abbreviation backslash :: char where
  "backslash \<equiv> CHR 0x5C"

abbreviation backtick :: char where
  "backtick \<equiv> CHR 0x60"

text \<open>\<open>stripPrefix p s\<close> is what follows \<open>p\<close> when \<open>s\<close> starts with \<open>p\<close>
  (\<^verbatim>\<open>strings.HasPrefix\<close> together with the remainder).\<close>

fun stripPrefix :: "string \<Rightarrow> string \<Rightarrow> string option" where
  "stripPrefix [] s = Some s"
| "stripPrefix (p # ps) [] = None"
| "stripPrefix (p # ps) (c # cs) = (if p = c then stripPrefix ps cs else None)"

text \<open>\<^verbatim>\<open>fmt.Sprintf("%d", n)\<close> for a non-negative \<open>n\<close>.\<close>

fun showNat :: "nat \<Rightarrow> string" where
  "showNat n = (if n < 10 then [''0123456789'' ! n]
     else showNat (n div 10) @ [''0123456789'' ! (n mod 10)])"

declare showNat.simps [simp del]

subsection \<open>\<^verbatim>\<open>strings.TrimSpace\<close>\<close>

text \<open>
  \<^verbatim>\<open>strings.TrimSpace\<close> removes every leading and trailing rune that
  \<^verbatim>\<open>unicode.IsSpace\<close> accepts: the six ASCII ones, U+0085 and U+00A0, and the
  other code points of the White-Space property. They are listed here by their UTF-8
  encodings.
\<close>

definition spaceRunes :: "string list" where
  "spaceRunes =
    [[CHR 0x09], [CHR 0x0A], [CHR 0x0B], [CHR 0x0C], [CHR 0x0D], [CHR 0x20],
     [CHR 0xC2, CHR 0x85], [CHR 0xC2, CHR 0xA0],
     [CHR 0xE1, CHR 0x9A, CHR 0x80],
     [CHR 0xE2, CHR 0x80, CHR 0x80], [CHR 0xE2, CHR 0x80, CHR 0x81],
     [CHR 0xE2, CHR 0x80, CHR 0x82], [CHR 0xE2, CHR 0x80, CHR 0x83],
     [CHR 0xE2, CHR 0x80, CHR 0x84], [CHR 0xE2, CHR 0x80, CHR 0x85],
     [CHR 0xE2, CHR 0x80, CHR 0x86], [CHR 0xE2, CHR 0x80, CHR 0x87],
     [CHR 0xE2, CHR 0x80, CHR 0x88], [CHR 0xE2, CHR 0x80, CHR 0x89],
     [CHR 0xE2, CHR 0x80, CHR 0x8A],
     [CHR 0xE2, CHR 0x80, CHR 0xA8], [CHR 0xE2, CHR 0x80, CHR 0xA9],
     [CHR 0xE2, CHR 0x80, CHR 0xAF], [CHR 0xE2, CHR 0x81, CHR 0x9F],
     [CHR 0xE3, CHR 0x80, CHR 0x80]]"

text \<open>\<open>firstStrip ps s\<close>: what follows the first of the sequences \<open>ps\<close> that \<open>s\<close>
  starts with.\<close>

fun firstStrip :: "string list \<Rightarrow> string \<Rightarrow> string option" where
  "firstStrip [] s = None"
| "firstStrip (p # ps) s =
     (case stripPrefix p s of Some rest \<Rightarrow> Some rest | None \<Rightarrow> firstStrip ps s)"

text \<open>\<open>trimLeftFrom k s\<close> skips the first \<open>k\<close> bytes of \<open>s\<close> (the rest of a space rune
  already recognised) and then every further leading space rune.\<close>

fun trimLeftFrom :: "nat \<Rightarrow> string \<Rightarrow> string" where
  "trimLeftFrom k [] = []"
| "trimLeftFrom (Suc k) (c # cs) = trimLeftFrom k cs"
| "trimLeftFrom 0 (c # cs) =
     (case firstStrip spaceRunes (c # cs) of
        None \<Rightarrow> c # cs
      | Some rest \<Rightarrow> trimLeftFrom (length cs - length rest) cs)"

definition TrimLeftSpace :: "string \<Rightarrow> string" where
  "TrimLeftSpace s = trimLeftFrom 0 s"

text \<open>A rune is a trailing space of \<open>s\<close> exactly when its reversed encoding starts the
  reversed string.\<close>

fun trimRightFrom :: "nat \<Rightarrow> string \<Rightarrow> string" where
  "trimRightFrom k [] = []"
| "trimRightFrom (Suc k) (c # cs) = trimRightFrom k cs"
| "trimRightFrom 0 (c # cs) =
     (case firstStrip (map rev spaceRunes) (c # cs) of
        None \<Rightarrow> c # cs
      | Some rest \<Rightarrow> trimRightFrom (length cs - length rest) cs)"

definition TrimRightSpace :: "string \<Rightarrow> string" where
  "TrimRightSpace s = rev (trimRightFrom 0 (rev s))"

definition TrimSpace :: "string \<Rightarrow> string" where
  "TrimSpace s = TrimRightSpace (TrimLeftSpace s)"

section \<open>The patterns of the Markdown rule engine\<close>

text \<open>
  A compiled pattern is modelled by what it does at the start of a string: the capture
  groups of the match that begins there (the one Go's leftmost-first semantics picks)
  and the text after the match, or \<open>None\<close> when no match begins there. No pattern of the
  program matches the empty string.
\<close>

type_synonym regex = "string \<Rightarrow> (string list \<times> string) option"

abbreviation dquote :: char where
  "dquote \<equiv> CHR 0x22"

text \<open>\<^verbatim>\<open>[^>]*>\<close>: the greedy class cannot cross a \<^verbatim>\<open>>\<close> and must be followed by
  one, so it ends at the first \<^verbatim>\<open>>\<close>.\<close>

fun afterGt :: "string \<Rightarrow> string option" where
  "afterGt [] = None"
| "afterGt (c # cs) = (if c = CHR ''>'' then Some cs else afterGt cs)"

text \<open>\<^verbatim>\<open>([^"]*)"\<close>: the capture runs to the first double quote.\<close>

fun untilQuote :: "string \<Rightarrow> (string \<times> string) option" where
  "untilQuote [] = None"
| "untilQuote (c # cs) =
     (if c = dquote then Some ([], cs)
      else (case untilQuote cs of None \<Rightarrow> None | Some (v, rest) \<Rightarrow> Some (c # v, rest)))"

text \<open>\<^verbatim>\<open>(.*?)\<close> followed by the literal \<open>closing\<close>: the lazy capture grows one
  character at a time until the literal follows; \<^verbatim>\<open>.\<close> does not match a line feed.\<close>

fun lazyUntil :: "string \<Rightarrow> string \<Rightarrow> (string \<times> string) option" where
  "lazyUntil closing [] = (case stripPrefix closing [] of None \<Rightarrow> None | Some rest \<Rightarrow> Some ([], rest))"
| "lazyUntil closing (c # cs) =
     (case stripPrefix closing (c # cs) of
        Some rest \<Rightarrow> Some ([], rest)
      | None \<Rightarrow>
          if c = CHR 0x0A then None
          else (case lazyUntil closing cs of None \<Rightarrow> None | Some (v, rest) \<Rightarrow> Some (c # v, rest)))"

text \<open>\<^verbatim>\<open>[^>]*\<close> followed by a continuation \<open>k\<close> that may fail: the greedy class
  tries its longest extent first and gives characters back one at a time.\<close>

fun greedyNotGt :: "(string \<Rightarrow> 'a option) \<Rightarrow> string \<Rightarrow> 'a option" where
  "greedyNotGt k [] = k []"
| "greedyNotGt k (c # cs) =
     (case (if c = CHR ''>'' then None else greedyNotGt k cs) of
        Some r \<Rightarrow> Some r
      | None \<Rightarrow> k (c # cs))"

text \<open>\<^verbatim>\<open>opening[^>]*>(.*?)closing\<close>, the shape of most patterns of the program.\<close>

definition element :: "string \<Rightarrow> string \<Rightarrow> string \<Rightarrow> (string \<times> string) option" where
  "element opening closing s =
     (case stripPrefix opening s of
        None \<Rightarrow> None
      | Some s1 \<Rightarrow> (case afterGt s1 of None \<Rightarrow> None | Some s2 \<Rightarrow> lazyUntil closing s2))"

definition elementRegex :: "string \<Rightarrow> string \<Rightarrow> regex" where
  "elementRegex opening closing s =
     (case element opening closing s of None \<Rightarrow> None | Some (v, rest) \<Rightarrow> Some ([v], rest))"

text \<open>
  \<^verbatim>\<open><(n1|n2)[^>]*>(.*?)</\\1>\<close> as the source writes it, in a raw string literal: the
  two backslashes are a pattern for one literal backslash, and the \<^verbatim>\<open>1\<close> after them is
  a literal digit. The closing text the pattern asks for is therefore the five characters
  \<^verbatim>\<open><\<close>, \<^verbatim>\<open>/\<close>, backslash, \<^verbatim>\<open>1\<close>, \<^verbatim>\<open>>\<close>, whatever the opening name was. The
  alternatives are tried in order; group 1 is the name, group 2 the content.
\<close>

fun namedElementRegex :: "string list \<Rightarrow> regex" where
  "namedElementRegex [] s = None"
| "namedElementRegex (n # ns) s =
     (case element (CHR ''<'' # n) [CHR ''<'', CHR ''/'', backslash, CHR ''1'', CHR ''>''] s of
        Some (v, rest) \<Rightarrow> Some ([n, v], rest)
      | None \<Rightarrow> namedElementRegex ns s)"

definition h1Regex :: regex where
  "h1Regex = elementRegex ''<h1'' ''</h1>''"

definition h2Regex :: regex where
  "h2Regex = elementRegex ''<h2'' ''</h2>''"

definition h3Regex :: regex where
  "h3Regex = elementRegex ''<h3'' ''</h3>''"

definition h4Regex :: regex where
  "h4Regex = elementRegex ''<h4'' ''</h4>''"

definition pRegex :: regex where
  "pRegex = elementRegex ''<p'' ''</p>''"

definition boldRegex :: regex where
  "boldRegex = namedElementRegex [''b'', ''strong'']"

definition italicRegex :: regex where
  "italicRegex = namedElementRegex [''i'', ''em'']"

text \<open>\<^verbatim>\<open><a[^>]*href="([^"]*)"[^>]*>(.*?)</a>\<close>: \<open>linkHref\<close> is the pattern from
  \<^verbatim>\<open>href="\<close> on.\<close>

definition linkHref :: regex where
  "linkHref t =
     (case stripPrefix (''href='' @ [dquote]) t of
        None \<Rightarrow> None
      | Some t1 \<Rightarrow>
          (case untilQuote t1 of
             None \<Rightarrow> None
           | Some (href, t2) \<Rightarrow>
               (case afterGt t2 of
                  None \<Rightarrow> None
                | Some t3 \<Rightarrow>
                    (case lazyUntil ''</a>'' t3 of
                       None \<Rightarrow> None
                     | Some (txt, rest) \<Rightarrow> Some ([href, txt], rest)))))"

definition linkRegex :: regex where
  "linkRegex s = (case stripPrefix ''<a'' s of None \<Rightarrow> None | Some t \<Rightarrow> greedyNotGt linkHref t)"

definition liRegex :: regex where
  "liRegex = elementRegex ''<li'' ''</li>''"

definition olLiRegex :: regex where
  "olLiRegex = elementRegex ''<li'' ''</li>''"

text \<open>\<^verbatim>\<open><img[^>]*src="([^"]*)"[^>]*alt="([^"]*)"[^>]*>\<close>: \<open>imgSrc\<close> is the pattern from
  \<^verbatim>\<open>src="\<close> on, \<open>imgAlt\<close> from \<^verbatim>\<open>alt="\<close> on.\<close>

definition imgAlt :: "string \<Rightarrow> regex" where
  "imgAlt src t =
     (case stripPrefix (''alt='' @ [dquote]) t of
        None \<Rightarrow> None
      | Some t1 \<Rightarrow>
          (case untilQuote t1 of
             None \<Rightarrow> None
           | Some (alt, t2) \<Rightarrow>
               (case afterGt t2 of None \<Rightarrow> None | Some rest \<Rightarrow> Some ([src, alt], rest))))"

definition imgSrc :: regex where
  "imgSrc t =
     (case stripPrefix (''src='' @ [dquote]) t of
        None \<Rightarrow> None
      | Some t1 \<Rightarrow>
          (case untilQuote t1 of
             None \<Rightarrow> None
           | Some (src, t2) \<Rightarrow> greedyNotGt (imgAlt src) t2))"

definition imgRegex :: regex where
  "imgRegex s = (case stripPrefix ''<img'' s of None \<Rightarrow> None | Some t \<Rightarrow> greedyNotGt imgSrc t)"

definition tableRegex :: regex where
  "tableRegex = elementRegex ''<table'' ''</table>''"

definition trRegex :: regex where
  "trRegex = elementRegex ''<tr'' ''</tr>''"

definition thRegex :: regex where
  "thRegex = elementRegex ''<th'' ''</th>''"

definition tdRegex :: regex where
  "tdRegex = elementRegex ''<td'' ''</td>''"

definition preRegex :: regex where
  "preRegex = elementRegex ''<pre'' ''</pre>''"

definition codeRegex :: regex where
  "codeRegex = elementRegex ''<code'' ''</code>''"

definition blockquoteRegex :: regex where
  "blockquoteRegex = elementRegex ''<blockquote'' ''</blockquote>''"

text \<open>\<^verbatim>\<open>opening[^>]*>\<close>: a single tag, no group.\<close>

definition tagRegexOf :: "string \<Rightarrow> regex" where
  "tagRegexOf opening s =
     (case stripPrefix opening s of
        None \<Rightarrow> None
      | Some s1 \<Rightarrow> (case afterGt s1 of None \<Rightarrow> None | Some rest \<Rightarrow> Some ([], rest)))"

definition hrRegex :: regex where
  "hrRegex = tagRegexOf ''<hr''"

definition divRegex :: regex where
  "divRegex = namedElementRegex [''div'', ''span'']"

definition brRegex :: regex where
  "brRegex = tagRegexOf ''<br''"

definition tagRegex :: regex where
  "tagRegex = tagRegexOf ''<''"

text \<open>\<^verbatim>\<open>\n{3,}\<close>: a greedy run of at least three line feeds.\<close>

definition spaceRegex :: regex where
  "spaceRegex s =
     (if 3 \<le> length (takeWhile (\<lambda>c. c = CHR 0x0A) s)
      then Some ([], dropWhile (\<lambda>c. c = CHR 0x0A) s) else None)"

subsection \<open>The operations of \<^verbatim>\<open>regexp\<close> and \<^verbatim>\<open>strings\<close> the program calls\<close>

text \<open>
  \<^verbatim>\<open>ReplaceAllString\<close> replaces the successive non-overlapping matches, found from left
  to right. \<open>replaceFrom re tmpl k s\<close> first skips \<open>k\<close> characters of \<open>s\<close> (the rest of a
  match found one character earlier). The template is a function of the groups:
  \<open>g ! 0\<close> is \<^verbatim>\<open>$1\<close>, \<open>g ! 1\<close> is \<^verbatim>\<open>$2\<close>.
\<close>

fun replaceFrom :: "regex \<Rightarrow> (string list \<Rightarrow> string) \<Rightarrow> nat \<Rightarrow> string \<Rightarrow> string" where
  "replaceFrom re tmpl k [] = []"
| "replaceFrom re tmpl (Suc k) (c # cs) = replaceFrom re tmpl k cs"
| "replaceFrom re tmpl 0 (c # cs) =
     (case re (c # cs) of
        None \<Rightarrow> c # replaceFrom re tmpl 0 cs
      | Some (groups, rest) \<Rightarrow> tmpl groups @ replaceFrom re tmpl (length cs - length rest) cs)"

definition ReplaceAllString :: "regex \<Rightarrow> (string list \<Rightarrow> string) \<Rightarrow> string \<Rightarrow> string" where
  "ReplaceAllString re tmpl s = replaceFrom re tmpl 0 s"

text \<open>\<^verbatim>\<open>FindAllStringSubmatch(s, -1)\<close>: for each match, the matched text followed by
  its groups.\<close>

fun findFrom :: "regex \<Rightarrow> nat \<Rightarrow> string \<Rightarrow> string list list" where
  "findFrom re k [] = []"
| "findFrom re (Suc k) (c # cs) = findFrom re k cs"
| "findFrom re 0 (c # cs) =
     (case re (c # cs) of
        None \<Rightarrow> findFrom re 0 cs
      | Some (groups, rest) \<Rightarrow>
          (take (Suc (length cs) - length rest) (c # cs) # groups)
            # findFrom re (length cs - length rest) cs)"

definition FindAllStringSubmatch :: "regex \<Rightarrow> string \<Rightarrow> string list list" where
  "FindAllStringSubmatch re s = findFrom re 0 s"

fun MatchString :: "regex \<Rightarrow> string \<Rightarrow> bool" where
  "MatchString re [] = False"
| "MatchString re (c # cs) = (case re (c # cs) of Some m \<Rightarrow> True | None \<Rightarrow> MatchString re cs)"

text \<open>\<^verbatim>\<open>strings.Replace(s, old, new, -1)\<close> for a non-empty \<open>old\<close>.\<close>

definition literal :: "string \<Rightarrow> regex" where
  "literal old s = (case stripPrefix old s of None \<Rightarrow> None | Some rest \<Rightarrow> Some ([], rest))"

definition ReplaceEvery :: "string \<Rightarrow> string \<Rightarrow> string \<Rightarrow> string" where
  "ReplaceEvery old new s = ReplaceAllString (literal old) (\<lambda>g. new) s"

text \<open>\<^verbatim>\<open>strings.Replace(s, old, new, 1)\<close>: the first occurrence only.\<close>

fun ReplaceFirst :: "string \<Rightarrow> string \<Rightarrow> string \<Rightarrow> string" where
  "ReplaceFirst old new [] = (case stripPrefix old [] of None \<Rightarrow> [] | Some rest \<Rightarrow> new @ rest)"
| "ReplaceFirst old new (c # cs) =
     (case stripPrefix old (c # cs) of
        Some rest \<Rightarrow> new @ rest
      | None \<Rightarrow> c # ReplaceFirst old new cs)"

section \<open>The HTML-to-Markdown transducer\<close>

text \<open>
  \<^verbatim>\<open>html.UnescapeString\<close> belongs to the standard library and its table of character
  references is not part of the repository. It returns a string without an ampersand
  as it is, before the table is consulted; what it does to the other strings is the
  parameter \<open>decodeEntities\<close>.
\<close>

definition UnescapeString :: "(string \<Rightarrow> string) \<Rightarrow> string \<Rightarrow> string" where
  "UnescapeString decodeEntities s = (if CHR ''&'' \<in> set s then decodeEntities s else s)"

text \<open>The cells of one table row: \<^verbatim>\<open>"| " + TrimSpace(cell[1]) + " "\<close> for each.\<close>

definition tableCells :: "string list list \<Rightarrow> string" where
  "tableCells cells = concat (map (\<lambda>cell. ''| '' @ TrimSpace (cell ! 1) @ '' '') cells)"

definition separatorRow :: "nat \<Rightarrow> string" where
  "separatorRow n = concat (replicate n ''| --- '') @ ''|'' @ LF"

definition columnHeaders :: "nat \<Rightarrow> string" where
  "columnHeaders n = concat (map (\<lambda>i. ''| Column '' @ showNat (i + 1) @ '' '') [0..<n]) @ ''|'' @ LF"

text \<open>The body of the loop over the table matches: the Markdown table built from the
  content of one \<^verbatim>\<open><table>\<close> element.\<close>

definition mdTable :: "string \<Rightarrow> string" where
  "mdTable tableContent =
     (let rows = FindAllStringSubmatch trRegex tableContent;
          header =
            (case rows of
               [] \<Rightarrow> []
             | row0 # others \<Rightarrow>
                 (let headerCells = FindAllStringSubmatch thRegex (row0 ! 1) in
                  if 0 < length headerCells
                  then tableCells headerCells @ ''|'' @ LF @ separatorRow (length headerCells)
                  else (let firstRowCells = FindAllStringSubmatch tdRegex (row0 ! 1) in
                        columnHeaders (length firstRowCells)
                          @ separatorRow (length firstRowCells))))
      in header
           @ concat (map (\<lambda>row. tableCells (FindAllStringSubmatch tdRegex (row ! 1)) @ ''|'' @ LF)
                       rows))"

text \<open>The matches are found once, in the text as it is before the loop; each is then
  replaced at its first occurrence in the text as it is by then.\<close>

definition convertTables :: "string \<Rightarrow> string" where
  "convertTables unescaped =
     foldl (\<lambda>u m. ReplaceFirst (m ! 0) (mdTable (m ! 1)) u) unescaped
       (FindAllStringSubmatch tableRegex unescaped)"

text \<open>\<^verbatim>\<open>for divRegex.MatchString(unescaped) { unescaped = divRegex.ReplaceAllString(unescaped, "$2") }\<close>\<close>

function unwrapDivs :: "string \<Rightarrow> string" where
  "unwrapDivs unescaped =
     (if MatchString divRegex unescaped
      then unwrapDivs (ReplaceAllString divRegex (\<lambda>g. g ! 1) unescaped)
      else unescaped)"
  by pat_completeness auto

definition htmlToMarkdown :: "(string \<Rightarrow> string) \<Rightarrow> string \<Rightarrow> string" where
  "htmlToMarkdown decodeEntities htmlContent =
     (let unescaped = UnescapeString decodeEntities htmlContent;
          unescaped = ReplaceAllString h1Regex (\<lambda>g. ''# '' @ g ! 0 @ LF @ LF) unescaped;
          unescaped = ReplaceAllString h2Regex (\<lambda>g. ''## '' @ g ! 0 @ LF @ LF) unescaped;
          unescaped = ReplaceAllString h3Regex (\<lambda>g. ''### '' @ g ! 0 @ LF @ LF) unescaped;
          unescaped = ReplaceAllString h4Regex (\<lambda>g. ''#### '' @ g ! 0 @ LF @ LF) unescaped;
          unescaped = ReplaceAllString pRegex (\<lambda>g. g ! 0 @ LF @ LF) unescaped;
          unescaped = ReplaceAllString boldRegex (\<lambda>g. ''**'' @ g ! 1 @ ''**'') unescaped;
          unescaped = ReplaceAllString italicRegex (\<lambda>g. ''*'' @ g ! 1 @ ''*'') unescaped;
          unescaped = ReplaceAllString linkRegex (\<lambda>g. ''['' @ g ! 1 @ '']('' @ g ! 0 @ '')'') unescaped;
          unescaped = ReplaceEvery ''<ul>'' LF unescaped;
          unescaped = ReplaceEvery ''</ul>'' LF unescaped;
          unescaped = ReplaceAllString liRegex (\<lambda>g. ''- '' @ g ! 0 @ LF) unescaped;
          unescaped = ReplaceEvery ''<ol>'' LF unescaped;
          unescaped = ReplaceEvery ''</ol>'' LF unescaped;
          unescaped = ReplaceAllString olLiRegex (\<lambda>g. ''1. '' @ g ! 0 @ LF) unescaped;
          unescaped = ReplaceAllString imgRegex (\<lambda>g. ''!['' @ g ! 1 @ '']('' @ g ! 0 @ '')'') unescaped;
          unescaped = convertTables unescaped;
          unescaped = ReplaceAllString preRegex
             (\<lambda>g. [backtick, backtick, backtick] @ LF @ g ! 0 @ LF @ [backtick, backtick, backtick] @ LF @ LF)
             unescaped;
          unescaped = ReplaceAllString codeRegex (\<lambda>g. [backtick] @ g ! 0 @ [backtick]) unescaped;
          unescaped = ReplaceAllString blockquoteRegex (\<lambda>g. ''> '' @ g ! 0 @ LF @ LF) unescaped;
          unescaped = ReplaceAllString hrRegex (\<lambda>g. ''---'' @ LF @ LF) unescaped;
          unescaped = unwrapDivs unescaped;
          unescaped = ReplaceAllString brRegex (\<lambda>g. LF) unescaped;
          unescaped = ReplaceAllString tagRegex (\<lambda>g. []) unescaped;
          unescaped = TrimSpace unescaped;
          unescaped = ReplaceAllString spaceRegex (\<lambda>g. LF @ LF) unescaped
      in unescaped)"

section \<open>Values, errors and the page model\<close>

text \<open>
  A value of Go's \<^verbatim>\<open>interface{}\<close>, as far as the program tells values apart: the nil
  interface, a string, a pointer to a string (possibly a nil pointer), a boolean, a
  number, a slice of strings, a non-nil object of the SDK (kept opaque, by a name) and a
  \<^verbatim>\<open>map[string]interface{}\<close>.
\<close>

datatype any =
    ANil
  | AString string
  | AStringPtr "string option"
  | ABool bool
  | ANumber int
  | AStrings "string list"
  | AObject string
  | AMap "string \<Rightarrow> any option"

type_synonym attrs = "string \<Rightarrow> any option"

text \<open>An error value carries its message; dereferencing a nil pointer is a panic, which
  no \<^verbatim>\<open>err != nil\<close> test of the program catches.\<close>

datatype error = Err string | NilDereference

text \<open>\<^verbatim>\<open>fmt.Errorf(prefix + "%v", err)\<close>\<close>

fun Errorf :: "string \<Rightarrow> error \<Rightarrow> error" where
  "Errorf prefix (Err msg) = Err (prefix @ msg)"
| "Errorf prefix NilDereference = NilDereference"

record webPart =
  wp_GoType :: string
  wp_GetBackingStore :: "attrs option"
  wp_GetAdditionalData :: "attrs option"

record canvasColumn =
  col_GetWebparts :: "webPart list option"

record horizontalSection =
  sec_GetLayout :: "string option"
  sec_GetColumns :: "canvasColumn list option"

record verticalSection =
  vert_GetWebparts :: "webPart list option"

record canvasLayout =
  GetHorizontalSections :: "horizontalSection list option"
  GetVerticalSection :: "verticalSection option"

record sitePage =
  page_GetId :: "string option"
  page_GetPageLayout :: "int option"
  page_GetPublishingState :: "string option"
  page_GetTitle :: "string option"
  page_GetDescription :: "string option"
  page_GetCanvasLayout :: "canvasLayout option"
  page_GetAdditionalData :: "attrs option"

section \<open>The content of one web part\<close>

text \<open>
  \<^verbatim>\<open>getPageContent\<close> sets \<^verbatim>\<open>debugging := false\<close> and never changes it, so the
  branches under \<^verbatim>\<open>if debugging\<close> are not run and are left out. Each step below
  returns \<open>Some\<close> of the text it writes when it sets \<^verbatim>\<open>contentFound\<close>, and \<open>None\<close> when
  it writes nothing.

  \<^verbatim>\<open>BackingStore.Get("innerHtml")\<close> gives the stored value, or nil when there is none,
  and no error for this key.
\<close>

definition fromBackingStore :: "(string \<Rightarrow> string) \<Rightarrow> string \<Rightarrow> webPart \<Rightarrow> error + string option" where
  "fromBackingStore decodeEntities format webPart =
     (case wp_GetBackingStore webPart of
        None \<Rightarrow> Inr None
      | Some backingStore \<Rightarrow>
          (case backingStore ''innerHtml'' of
             Some (AStringPtr htmlStr) \<Rightarrow>
               (case htmlStr of
                  None \<Rightarrow> Inl NilDereference
                | Some h \<Rightarrow>
                    if format = ''markdown''
                    then Inr (Some (htmlToMarkdown decodeEntities h @ LF @ LF))
                    else Inr (Some (''      Content: '' @ h @ LF)))
           | _ \<Rightarrow> Inr None))"

text \<open>The steps over the additional data are written twice in the source, for a web part
  of a column and for one of the vertical section; the two copies differ in the
  indentation of the plain format only, which is the parameter \<open>indent\<close>.\<close>

definition fromInnerHtml :: "string \<Rightarrow> (string \<Rightarrow> string) \<Rightarrow> string \<Rightarrow> attrs \<Rightarrow> string option" where
  "fromInnerHtml indent decodeEntities format data =
     (case data ''innerHtml'' of
        Some (AString htmlStr) \<Rightarrow>
          if format = ''markdown''
          then Some (htmlToMarkdown decodeEntities htmlStr @ LF @ LF)
          else Some (indent @ ''Content: '' @ htmlStr @ LF)
      | _ \<Rightarrow> None)"

definition fromText :: "string \<Rightarrow> string \<Rightarrow> attrs \<Rightarrow> string option" where
  "fromText indent format data =
     (case data ''text'' of
        Some (AString textStr) \<Rightarrow>
          if format = ''markdown''
          then Some (textStr @ LF @ LF)
          else Some (indent @ ''Text: '' @ textStr @ LF)
      | _ \<Rightarrow> None)"

text \<open>\<^verbatim>\<open>for _, field := range []string{"text", "content", "value", "description", "html"}\<close>,
  left at the first field that holds a non-empty string.\<close>

fun fromFields :: "string \<Rightarrow> (string \<Rightarrow> string) \<Rightarrow> string \<Rightarrow> attrs \<Rightarrow> string list \<Rightarrow> string option" where
  "fromFields indent decodeEntities format dataMap [] = None"
| "fromFields indent decodeEntities format dataMap (field # remaining) =
     (case dataMap field of
        Some (AString strVal) \<Rightarrow>
          if strVal \<noteq> []
          then (if format = ''markdown''
                then Some ((if field = ''html'' then htmlToMarkdown decodeEntities strVal else strVal)
                             @ LF @ LF)
                else Some (indent @ field @ '': '' @ strVal @ LF))
          else fromFields indent decodeEntities format dataMap remaining
      | _ \<Rightarrow> fromFields indent decodeEntities format dataMap remaining)"

definition fromData :: "string \<Rightarrow> (string \<Rightarrow> string) \<Rightarrow> string \<Rightarrow> attrs \<Rightarrow> string option" where
  "fromData indent decodeEntities format data =
     (case data ''data'' of
        Some (AMap dataMap) \<Rightarrow>
          fromFields indent decodeEntities format dataMap
            [''text'', ''content'', ''value'', ''description'', ''html'']
      | Some (AString dataStr) \<Rightarrow>
          if dataStr \<noteq> []
          then (if format = ''markdown''
                then Some (dataStr @ LF @ LF)
                else Some (indent @ ''Data: '' @ dataStr @ LF))
          else None
      | _ \<Rightarrow> None)"

text \<open>The three steps over the additional data, each run only while
  \<^verbatim>\<open>contentFound\<close> is still false; the result is the text written.\<close>

definition fromAdditionalData :: "string \<Rightarrow> (string \<Rightarrow> string) \<Rightarrow> string \<Rightarrow> attrs \<Rightarrow> string" where
  "fromAdditionalData indent decodeEntities format data =
     (case fromInnerHtml indent decodeEntities format data of
        Some written \<Rightarrow> written
      | None \<Rightarrow>
          (case fromText indent format data of
             Some written \<Rightarrow> written
           | None \<Rightarrow>
               (case fromData indent decodeEntities format data of
                  Some written \<Rightarrow> written
                | None \<Rightarrow> [])))"

text \<open>The body of the loop over the web parts of a column (lines 429 to 559 of the
  source): the backing store first, the additional data only when it gave nothing.\<close>

definition columnWebPart :: "(string \<Rightarrow> string) \<Rightarrow> string \<Rightarrow> nat \<Rightarrow> webPart \<Rightarrow> error + string" where
  "columnWebPart decodeEntities format wpIdx webPart =
     (let heading =
            (if format = ''markdown'' then []
             else ''    Web Part '' @ showNat (wpIdx + 1) @ '' (Type: '' @ wp_GoType webPart @ ''):'' @ LF)
      in case fromBackingStore decodeEntities format webPart of
           Inl e \<Rightarrow> Inl e
         | Inr (Some written) \<Rightarrow> Inr (heading @ written)
         | Inr None \<Rightarrow>
             (case wp_GetAdditionalData webPart of
                None \<Rightarrow> Inr heading
              | Some data \<Rightarrow> Inr (heading @ fromAdditionalData ''      '' decodeEntities format data)))"

text \<open>The body of the loop over the web parts of the vertical section (lines 589 to 692
  of the source): the additional data only.\<close>

definition verticalWebPart :: "(string \<Rightarrow> string) \<Rightarrow> string \<Rightarrow> nat \<Rightarrow> webPart \<Rightarrow> error + string" where
  "verticalWebPart decodeEntities format wpIdx webPart =
     (let heading =
            (if format = ''markdown'' then []
             else ''  Web Part '' @ showNat (wpIdx + 1) @ '':'' @ LF)
      in case wp_GetAdditionalData webPart of
           None \<Rightarrow> Inr heading
         | Some data \<Rightarrow> Inr (heading @ fromAdditionalData ''    '' decodeEntities format data))"

section \<open>The layout walker and the page content service\<close>

text \<open>\<^verbatim>\<open>for i, x := range xs\<close> over a body that writes text or panics: the texts in
  order, up to the first panic.\<close>

fun forRange :: "(nat \<Rightarrow> 'a \<Rightarrow> error + string) \<Rightarrow> nat \<Rightarrow> 'a list \<Rightarrow> error + string" where
  "forRange body i [] = Inr []"
| "forRange body i (x # xs) =
     (case body i x of
        Inl e \<Rightarrow> Inl e
      | Inr written \<Rightarrow>
          (case forRange body (Suc i) xs of
             Inl e \<Rightarrow> Inl e
           | Inr later \<Rightarrow> Inr (written @ later)))"

definition walkColumn :: "(string \<Rightarrow> string) \<Rightarrow> string \<Rightarrow> nat \<Rightarrow> canvasColumn \<Rightarrow> error + string" where
  "walkColumn decodeEntities format colIdx column =
     (let heading =
            (if format = ''markdown'' then []
             else ''  Column '' @ showNat (colIdx + 1) @ '':'' @ LF)
      in case col_GetWebparts column of
           None \<Rightarrow> Inr heading
         | Some webParts \<Rightarrow>
             (case forRange (columnWebPart decodeEntities format) 0 webParts of
                Inl e \<Rightarrow> Inl e
              | Inr written \<Rightarrow>
                  Inr (heading
                       @ (if format = ''markdown'' then []
                          else ''    Number of web parts: '' @ showNat (length webParts) @ LF)
                       @ written)))"

text \<open>In the plain format the heading of a section dereferences its layout, which
  panics when the section has none.\<close>

definition walkSection :: "(string \<Rightarrow> string) \<Rightarrow> string \<Rightarrow> nat \<Rightarrow> horizontalSection \<Rightarrow> error + string" where
  "walkSection decodeEntities format secIdx section =
     (case (if format = ''markdown'' then Inr []
            else (case sec_GetLayout section of
                    None \<Rightarrow> Inl NilDereference
                  | Some layout \<Rightarrow>
                      Inr (LF @ ''Section '' @ showNat (secIdx + 1) @ '' (Layout: '' @ layout @ ''):'' @ LF))) of
        Inl e \<Rightarrow> Inl e
      | Inr heading \<Rightarrow>
          (case sec_GetColumns section of
             None \<Rightarrow> Inr heading
           | Some columns \<Rightarrow>
               (case forRange (walkColumn decodeEntities format) 0 columns of
                  Inl e \<Rightarrow> Inl e
                | Inr written \<Rightarrow>
                    Inr (heading
                         @ (if format = ''markdown'' then []
                            else ''  Number of columns: '' @ showNat (length columns) @ LF)
                         @ written))))"

definition walkHorizontalSections :: "(string \<Rightarrow> string) \<Rightarrow> string \<Rightarrow> canvasLayout \<Rightarrow> error + string" where
  "walkHorizontalSections decodeEntities format layout =
     (case GetHorizontalSections layout of
        None \<Rightarrow> Inr []
      | Some sections \<Rightarrow>
          (case forRange (walkSection decodeEntities format) 0 sections of
             Inl e \<Rightarrow> Inl e
           | Inr written \<Rightarrow>
               Inr ((if format = ''markdown'' then []
                     else ''Number of horizontal sections: '' @ showNat (length sections) @ LF)
                    @ written)))"

definition walkVerticalSection :: "(string \<Rightarrow> string) \<Rightarrow> string \<Rightarrow> canvasLayout \<Rightarrow> error + string" where
  "walkVerticalSection decodeEntities format layout =
     (case GetVerticalSection layout of
        None \<Rightarrow> Inr []
      | Some vertSection \<Rightarrow>
          (let heading = (if format = ''markdown'' then [] else LF @ ''Vertical Section:'' @ LF)
           in case vert_GetWebparts vertSection of
                None \<Rightarrow> Inr heading
              | Some webParts \<Rightarrow>
                  (case forRange (verticalWebPart decodeEntities format) 0 webParts of
                     Inl e \<Rightarrow> Inl e
                   | Inr written \<Rightarrow>
                       Inr (heading
                            @ (if format = ''markdown'' then []
                               else ''  Number of web parts: '' @ showNat (length webParts) @ LF)
                            @ written))))"

definition walkCanvasLayout :: "(string \<Rightarrow> string) \<Rightarrow> string \<Rightarrow> sitePage \<Rightarrow> error + string" where
  "walkCanvasLayout decodeEntities format page =
     (case page_GetCanvasLayout page of
        None \<Rightarrow> Inr []
      | Some layout \<Rightarrow>
          (case walkHorizontalSections decodeEntities format layout of
             Inl e \<Rightarrow> Inl e
           | Inr horizontal \<Rightarrow>
               (case walkVerticalSection decodeEntities format layout of
                  Inl e \<Rightarrow> Inl e
                | Inr vertical \<Rightarrow>
                    Inr ((if format = ''markdown'' then [] else ''--- Canvas Layout Content ---'' @ LF)
                         @ horizontal @ vertical))))"

text \<open>What \<^verbatim>\<open>getPageContent\<close> does with the page it fetched: the title, the
  description, the canvas layout, and the fallback text when nothing was written.\<close>

definition renderPage :: "(string \<Rightarrow> string) \<Rightarrow> string \<Rightarrow> sitePage \<Rightarrow> error + string" where
  "renderPage decodeEntities format page =
     (let title =
            (case page_GetTitle page of
               None \<Rightarrow> []
             | Some t \<Rightarrow>
                 if format = ''markdown'' then ''## '' @ t @ LF @ LF else ''Title: '' @ t @ LF);
          description =
            (case page_GetDescription page of
               None \<Rightarrow> []
             | Some d \<Rightarrow>
                 if format = ''markdown'' then ''*'' @ d @ ''*'' @ LF @ LF
                 else ''Description: '' @ d @ LF)
      in case walkCanvasLayout decodeEntities format page of
           Inl e \<Rightarrow> Inl e
         | Inr body \<Rightarrow>
             (let content = title @ description @ body
              in if content = []
                 then (if format = ''markdown''
                       then Inr ''*No detailed content available. Use the page URL to view in browser.*''
                       else Inr ''No detailed content available. Use the page URL to view in browser.'')
                 else Inr content))"

text \<open>The request for one page with its canvas layout expanded is the parameter
  \<open>fetchPage\<close>, from the site and page identifiers to the page or the error of the
  service.\<close>

definition getPageContent ::
  "(string \<Rightarrow> string) \<Rightarrow> (string \<Rightarrow> string \<Rightarrow> error + sitePage) \<Rightarrow> string \<Rightarrow> string \<Rightarrow> string
     \<Rightarrow> error + string" where
  "getPageContent decodeEntities fetchPage siteId pageId format =
     (case fetchPage siteId pageId of
        Inl err \<Rightarrow> Inl (Errorf ''error getting page content: '' err)
      | Inr page \<Rightarrow> renderPage decodeEntities format page)"

section \<open>The resource normalizers\<close>

text \<open>\<open>setIf key v m\<close> is \<^verbatim>\<open>if v != nil { m[key] = v }\<close>: the getter's result, already
  turned into the value to store, is written only when it is there.\<close>

fun setIf :: "string \<Rightarrow> any option \<Rightarrow> attrs \<Rightarrow> attrs" where
  "setIf key None m = m"
| "setIf key (Some v) m = m(key \<mapsto> v)"

text \<open>\<^verbatim>\<open>for k, v := range additionalData { m[k] = v }\<close>; ranging over a nil map does
  nothing.\<close>

fun copyAdditionalData :: "attrs option \<Rightarrow> attrs \<Rightarrow> attrs" where
  "copyAdditionalData None m = m"
| "copyAdditionalData (Some additionalData) m = m ++ additionalData"

text \<open>The identifier a normalizer returns: the zero value \<^verbatim>\<open>""\<close> unless the record has
  an identifier.\<close>

fun idOrEmpty :: "string option \<Rightarrow> string" where
  "idOrEmpty None = []"
| "idOrEmpty (Some i) = i"


record site =
  site_GetId :: "string option"
  site_GetDisplayName :: "string option"
  site_GetIsPersonalSite :: "bool option"
  site_GetAnalytics :: "string option"
  site_GetError :: "string option"
  site_GetSharepointIds :: "string option"
  site_GetSiteCollection :: "string option"
  site_GetAdditionalData :: "attrs option"

definition convertSiteToMap :: "site \<Rightarrow> string \<times> attrs" where
  "convertSiteToMap site =
     (let siteMap = Map.empty;
          siteMap = setIf ''id'' (map_option AString (site_GetId site)) siteMap;
          siteMap = setIf ''displayName'' (map_option AString (site_GetDisplayName site)) siteMap;
          siteMap = setIf ''isPersonalSite'' (map_option ABool (site_GetIsPersonalSite site)) siteMap;
          siteMap = setIf ''analytics'' (map_option AObject (site_GetAnalytics site)) siteMap;
          siteMap = setIf ''error'' (map_option AObject (site_GetError site)) siteMap;
          siteMap = setIf ''sharepointIds'' (map_option AObject (site_GetSharepointIds site)) siteMap;
          siteMap = setIf ''siteCollection'' (map_option AObject (site_GetSiteCollection site)) siteMap;
          siteMap = copyAdditionalData (site_GetAdditionalData site) siteMap
      in (idOrEmpty (site_GetId site), siteMap))"

text \<open>The layout of a page is a value of an integer enumeration, stored as the number
  it is; its publishing state is an object.\<close>

definition convertSitePageToMap :: "sitePage \<Rightarrow> string \<times> attrs" where
  "convertSitePageToMap page =
     (let siteMap = Map.empty;
          siteMap = setIf ''id'' (map_option AString (page_GetId page)) siteMap;
          siteMap = setIf ''pageLayout'' (map_option ANumber (page_GetPageLayout page)) siteMap;
          siteMap = setIf ''publishingState'' (map_option AObject (page_GetPublishingState page)) siteMap;
          siteMap = setIf ''title'' (map_option AString (page_GetTitle page)) siteMap;
          siteMap = copyAdditionalData (page_GetAdditionalData page) siteMap
      in (idOrEmpty (page_GetId page), siteMap))"

record user =
  user_GetId :: "string option"
  user_GetDisplayName :: "string option"
  user_GetUserPrincipalName :: "string option"
  user_GetMail :: "string option"
  user_GetGivenName :: "string option"
  user_GetSurname :: "string option"
  user_GetJobTitle :: "string option"
  user_GetMobilePhone :: "string option"
  user_GetOfficeLocation :: "string option"
  user_GetBusinessPhones :: "string list option"
  user_GetAccountEnabled :: "bool option"
  user_GetCity :: "string option"
  user_GetCountry :: "string option"
  user_GetDepartment :: "string option"
  user_GetCompanyName :: "string option"
  user_GetStreetAddress :: "string option"
  user_GetPostalCode :: "string option"
  user_GetState :: "string option"
  user_GetPreferredLanguage :: "string option"
  user_GetEmployeeId :: "string option"
  user_GetAdditionalData :: "attrs option"

definition convertUserToMap :: "user \<Rightarrow> string \<times> attrs" where
  "convertUserToMap user =
     (let userData = Map.empty;
          userData = setIf ''id'' (map_option AString (user_GetId user)) userData;
          userData = setIf ''displayName'' (map_option AString (user_GetDisplayName user)) userData;
          userData = setIf ''userPrincipalName'' (map_option AString (user_GetUserPrincipalName user)) userData;
          userData = setIf ''mail'' (map_option AString (user_GetMail user)) userData;
          userData = setIf ''givenName'' (map_option AString (user_GetGivenName user)) userData;
          userData = setIf ''surname'' (map_option AString (user_GetSurname user)) userData;
          userData = setIf ''jobTitle'' (map_option AString (user_GetJobTitle user)) userData;
          userData = setIf ''mobilePhone'' (map_option AString (user_GetMobilePhone user)) userData;
          userData = setIf ''officeLocation'' (map_option AString (user_GetOfficeLocation user)) userData;
          userData = setIf ''businessPhones'' (map_option AStrings (user_GetBusinessPhones user)) userData;
          userData = setIf ''accountEnabled'' (map_option ABool (user_GetAccountEnabled user)) userData;
          userData = setIf ''city'' (map_option AString (user_GetCity user)) userData;
          userData = setIf ''country'' (map_option AString (user_GetCountry user)) userData;
          userData = setIf ''department'' (map_option AString (user_GetDepartment user)) userData;
          userData = setIf ''companyName'' (map_option AString (user_GetCompanyName user)) userData;
          userData = setIf ''streetAddress'' (map_option AString (user_GetStreetAddress user)) userData;
          userData = setIf ''postalCode'' (map_option AString (user_GetPostalCode user)) userData;
          userData = setIf ''state'' (map_option AString (user_GetState user)) userData;
          userData = setIf ''preferredLanguage'' (map_option AString (user_GetPreferredLanguage user)) userData;
          userData = setIf ''employeeId'' (map_option AString (user_GetEmployeeId user)) userData;
          userData = copyAdditionalData (user_GetAdditionalData user) userData
      in (idOrEmpty (user_GetId user), userData))"

text \<open>\<^verbatim>\<open>base64.StdEncoding.EncodeToString\<close>, for the logo of an application.\<close>

definition encodeStd :: string where
  "encodeStd = ''ABCDEFGHIJKLMNOPQRSTUVWXYZabcdefghijklmnopqrstuvwxyz0123456789+/''"

fun EncodeToString :: "string \<Rightarrow> string" where
  "EncodeToString [] = []"
| "EncodeToString [a] =
     (let n = of_char a * (65536 :: nat)
      in [encodeStd ! (n div 262144), encodeStd ! (n div 4096 mod 64), CHR ''='', CHR ''=''])"
| "EncodeToString [a, b] =
     (let n = of_char a * (65536 :: nat) + of_char b * 256
      in [encodeStd ! (n div 262144), encodeStd ! (n div 4096 mod 64),
          encodeStd ! (n div 64 mod 64), CHR ''=''])"
| "EncodeToString (a # b # c # src) =
     (let n = of_char a * (65536 :: nat) + of_char b * 256 + of_char c
      in [encodeStd ! (n div 262144), encodeStd ! (n div 4096 mod 64),
          encodeStd ! (n div 64 mod 64), encodeStd ! (n mod 64)]
         @ EncodeToString src)"

text \<open>
  The creation time and the key identifier of an application are kept as the strings
  that \<^verbatim>\<open>Format(time.RFC3339)\<close> and \<^verbatim>\<open>String()\<close> give for them. The logo is a byte
  slice, copied when it is not empty; the six complex properties are summarised by a
  fixed text when they are present.
\<close>

record application =
  app_GetId :: "string option"
  app_GetDisplayName :: "string option"
  app_GetAppId :: "string option"
  app_GetPublisherDomain :: "string option"
  app_GetCreatedDateTime :: "string option"
  app_GetApplicationTemplateId :: "string option"
  app_GetDefaultRedirectUri :: "string option"
  app_GetDescription :: "string option"
  app_GetDisabledByMicrosoftStatus :: "string option"
  app_GetGroupMembershipClaims :: "string option"
  app_GetIsDeviceOnlyAuthSupported :: "bool option"
  app_GetIsFallbackPublicClient :: "bool option"
  app_GetNotes :: "string option"
  app_GetOauth2RequirePostResponse :: "bool option"
  app_GetSamlMetadataUrl :: "string option"
  app_GetServiceManagementReference :: "string option"
  app_GetSignInAudience :: "string option"
  app_GetTags :: "string list option"
  app_GetTokenEncryptionKeyId :: "string option"
  app_GetUniqueName :: "string option"
  app_GetLogo :: string
  app_GetApi :: "string option"
  app_GetWeb :: "string option"
  app_GetSpa :: "string option"
  app_GetCertification :: "string option"
  app_GetInfo :: "string option"
  app_GetVerifiedPublisher :: "string option"
  app_GetAdditionalData :: "attrs option"

definition convertApplicationToMap :: "application \<Rightarrow> string \<times> attrs" where
  "convertApplicationToMap application =
     (let appMap = Map.empty;
          appMap = setIf ''id'' (map_option AString (app_GetId application)) appMap;
          appMap = setIf ''displayName'' (map_option AString (app_GetDisplayName application)) appMap;
          appMap = setIf ''appId'' (map_option AString (app_GetAppId application)) appMap;
          appMap = setIf ''publisherDomain'' (map_option AString (app_GetPublisherDomain application)) appMap;
          appMap = setIf ''createdDateTime'' (map_option AString (app_GetCreatedDateTime application)) appMap;
          appMap = setIf ''applicationTemplateId''
                     (map_option AString (app_GetApplicationTemplateId application)) appMap;
          appMap = setIf ''defaultRedirectUri'' (map_option AString (app_GetDefaultRedirectUri application)) appMap;
          appMap = setIf ''description'' (map_option AString (app_GetDescription application)) appMap;
          appMap = setIf ''disabledByMicrosoftStatus''
                     (map_option AString (app_GetDisabledByMicrosoftStatus application)) appMap;
          appMap = setIf ''groupMembershipClaims''
                     (map_option AString (app_GetGroupMembershipClaims application)) appMap;
          appMap = setIf ''isDeviceOnlyAuthSupported''
                     (map_option ABool (app_GetIsDeviceOnlyAuthSupported application)) appMap;
          appMap = setIf ''isFallbackPublicClient''
                     (map_option ABool (app_GetIsFallbackPublicClient application)) appMap;
          appMap = setIf ''notes'' (map_option AString (app_GetNotes application)) appMap;
          appMap = setIf ''oauth2RequirePostResponse''
                     (map_option ABool (app_GetOauth2RequirePostResponse application)) appMap;
          appMap = setIf ''samlMetadataUrl'' (map_option AString (app_GetSamlMetadataUrl application)) appMap;
          appMap = setIf ''serviceManagementReference''
                     (map_option AString (app_GetServiceManagementReference application)) appMap;
          appMap = setIf ''signInAudience'' (map_option AString (app_GetSignInAudience application)) appMap;
          appMap = setIf ''tags'' (map_option AStrings (app_GetTags application)) appMap;
          appMap = setIf ''tokenEncryptionKeyId''
                     (map_option AString (app_GetTokenEncryptionKeyId application)) appMap;
          appMap = setIf ''uniqueName'' (map_option AString (app_GetUniqueName application)) appMap;
          appMap = setIf ''logo''
                     (if 0 < length (app_GetLogo application)
                      then Some (AString (EncodeToString (app_GetLogo application))) else None) appMap;
          appMap = setIf ''api''
                     (map_option (\<lambda>appApi. AString ''ApiApplication present'') (app_GetApi application)) appMap;
          appMap = setIf ''web''
                     (map_option (\<lambda>web. AString ''WebApplication present'') (app_GetWeb application)) appMap;
          appMap = setIf ''spa''
                     (map_option (\<lambda>spa. AString ''SpaApplication present'') (app_GetSpa application)) appMap;
          appMap = setIf ''certification''
                     (map_option (\<lambda>cert. AString ''Certification present'') (app_GetCertification application))
                     appMap;
          appMap = setIf ''info''
                     (map_option (\<lambda>info. AString ''InformationalUrl present'') (app_GetInfo application)) appMap;
          appMap = setIf ''verifiedPublisher''
                     (map_option (\<lambda>verifiedPublisher. AString ''VerifiedPublisher present'')
                        (app_GetVerifiedPublisher application))
                     appMap;
          appMap = copyAdditionalData (app_GetAdditionalData application) appMap
      in (idOrEmpty (app_GetId application), appMap))"

section \<open>The paginated collection aggregator\<close>

text \<open>
  One page of a collection as the service returns it: the records (\<^verbatim>\<open>GetValue\<close>, nil
  or a slice) and the continuation link (\<^verbatim>\<open>GetOdataNextLink\<close>, nil or a string).
\<close>

record 'r collectionResponse =
  GetValue :: "'r list option"
  GetOdataNextLink :: "string option"

record queryParameters =
  param_Filter :: "string option"
  param_Select :: "string list"

text \<open>
  The service, as the requests the program sends to it: the first page of each
  collection, the page behind a continuation link, the subsites and the pages of a site,
  and one page with its canvas layout. Each request gives an error or a response.
\<close>

record graphClient =
  Users_Get :: "queryParameters \<Rightarrow> error + user collectionResponse"
  Users_Next :: "string \<Rightarrow> error + user collectionResponse"
  Applications_Get :: "queryParameters \<Rightarrow> error + application collectionResponse"
  Applications_Next :: "string \<Rightarrow> error + application collectionResponse"
  Sites_Get :: "queryParameters \<Rightarrow> error + site collectionResponse"
  Sites_Next :: "string \<Rightarrow> error + site collectionResponse"
  Subsites_Get :: "string \<Rightarrow> error + site collectionResponse"
  Pages_Get :: "string \<Rightarrow> error + sitePage collectionResponse"
  Pages_Next :: "string \<Rightarrow> error + sitePage collectionResponse"
  Page_Get :: "string \<Rightarrow> string \<Rightarrow> error + sitePage"

text \<open>A collection is keyed by identifier; it is an association list with one entry per
  key, so that the program can range over it. \<open>upsert\<close> is \<^verbatim>\<open>data[id] = record\<close>.\<close>

type_synonym collection = "(string \<times> attrs) list"

definition upsert :: "string \<times> attrs \<Rightarrow> collection \<Rightarrow> collection" where
  "upsert entry data = AList.update (fst entry) (snd entry) data"

text \<open>
  Modelled from the spec: the page iterator (\<^verbatim>\<open>msgraphcore.PageIterator\<close>) belongs to
  the SDK and is not in the repository. As section 4.1 of the specification has it: while
  a continuation token is present and not empty, fetch the next page, hand each of its
  records to the callback, and go on from the new page's token; a fetch failure ends the
  iteration with the error. The callbacks of the program always return true and update a
  variable of the caller, which is the state \<open>acc\<close> here. The result is the state
  reached and the error, if any; a service whose links never end makes the iteration run
  forever, which is the value \<open>None\<close>. Making the iterator from a response of the
  service (\<^verbatim>\<open>NewPageIterator\<close>) is taken not to fail.
\<close>

partial_function (option) Iterate ::
  "(string \<Rightarrow> error + 'r collectionResponse) \<Rightarrow> ('r \<Rightarrow> 's \<Rightarrow> 's) \<Rightarrow> 'r collectionResponse \<Rightarrow> 's
     \<Rightarrow> ('s \<times> error option) option" where
  "Iterate fetchNext callback currentPage acc =
     (case GetOdataNextLink currentPage of
        None \<Rightarrow> Some (acc, None)
      | Some link \<Rightarrow>
          if link = [] then Some (acc, None)
          else (case fetchNext link of
                  Inl err \<Rightarrow> Some (acc, Some err)
                | Inr nextPage \<Rightarrow>
                    Iterate fetchNext callback nextPage
                      (foldl (\<lambda>a r. callback r a) acc
                         (case GetValue nextPage of None \<Rightarrow> [] | Some records \<Rightarrow> records))))"

text \<open>
  When is it that fetching a continuation page fails: the current page has a link that
  is not empty and the request for it fails, or the request gives a page from which, in
  turn, fetching a continuation page fails.
\<close>

inductive continuationFails ::
  "(string \<Rightarrow> error + 'r collectionResponse) \<Rightarrow> 'r collectionResponse \<Rightarrow> error \<Rightarrow> bool"
  for fetchNext :: "string \<Rightarrow> error + 'r collectionResponse" where
  here: "GetOdataNextLink page = Some link \<Longrightarrow> link \<noteq> [] \<Longrightarrow> fetchNext link = Inl err
           \<Longrightarrow> continuationFails fetchNext page err"
| later: "GetOdataNextLink page = Some link \<Longrightarrow> link \<noteq> [] \<Longrightarrow> fetchNext link = Inr nextPage
           \<Longrightarrow> continuationFails fetchNext nextPage err
           \<Longrightarrow> continuationFails fetchNext page err"

code_pred continuationFails .

text \<open>
  The records an iteration hands to its callback when no request fails: none when the
  current page has no link or an empty one; otherwise the records of the page behind the
  link, followed by the records visited from that page on.
\<close>

inductive visits ::
  "(string \<Rightarrow> error + 'r collectionResponse) \<Rightarrow> 'r collectionResponse \<Rightarrow> 'r list \<Rightarrow> bool"
  for fetchNext :: "string \<Rightarrow> error + 'r collectionResponse" where
  last_page: "GetOdataNextLink page = None \<or> GetOdataNextLink page = Some []
                \<Longrightarrow> visits fetchNext page []"
| next_page: "GetOdataNextLink page = Some link \<Longrightarrow> link \<noteq> [] \<Longrightarrow> fetchNext link = Inr nextPage
                \<Longrightarrow> visits fetchNext nextPage records
                \<Longrightarrow> visits fetchNext page
                      ((case GetValue nextPage of None \<Rightarrow> [] | Some rs \<Rightarrow> rs) @ records)"

code_pred visits .

text \<open>\<^verbatim>\<open>if params == nil { params = ... }\<close>: for users and applications the empty
  parameters, for sites the parameters that select five properties.\<close>

definition defaultParameters :: "queryParameters option \<Rightarrow> queryParameters" where
  "defaultParameters params =
     (case params of None \<Rightarrow> \<lparr>param_Filter = None, param_Select = []\<rparr> | Some p \<Rightarrow> p)"

definition defaultSiteParameters :: "queryParameters option \<Rightarrow> queryParameters" where
  "defaultSiteParameters params =
     (case params of
        None \<Rightarrow>
          \<lparr>param_Filter = None,
           param_Select = [''id'', ''displayName'', ''webUrl'', ''siteCollection'', ''description'']\<rparr>
      | Some p \<Rightarrow> p)"

text \<open>
  The three \<^verbatim>\<open>Get\<close> functions end with \<^verbatim>\<open>json.MarshalIndent\<close> of the collection;
  the models return the collection that is handed to the encoder. \<open>Inr None\<close> is the
  return \<^verbatim>\<open>nil, err\<close> with a nil \<^verbatim>\<open>err\<close>, taken when the first response has no
  value.
\<close>

definition users_Get :: "graphClient \<Rightarrow> queryParameters option \<Rightarrow> (error + collection option) option" where
  "users_Get client params =
     (case Users_Get client (defaultParameters params) of
           Inl err \<Rightarrow> Some (Inl err)
         | Inr result \<Rightarrow>
             (case GetValue result of
                None \<Rightarrow> Some (Inr None)
              | Some users \<Rightarrow>
                  (let usersData = foldl (\<lambda>d user. upsert (convertUserToMap user) d) [] users
                   in case Iterate (Users_Next client) (\<lambda>user d. upsert (convertUserToMap user) d)
                             result usersData of
                        None \<Rightarrow> None
                      | Some (usersData, Some err) \<Rightarrow> Some (Inl err)
                      | Some (usersData, None) \<Rightarrow> Some (Inr (Some usersData)))))"

definition applications_Get ::
  "graphClient \<Rightarrow> queryParameters option \<Rightarrow> (error + collection option) option" where
  "applications_Get client params =
     (case Applications_Get client (defaultParameters params) of
           Inl err \<Rightarrow> Some (Inl err)
         | Inr result \<Rightarrow>
             (case GetValue result of
                None \<Rightarrow> Some (Inr None)
              | Some applications \<Rightarrow>
                  (let applicationsData =
                         foldl (\<lambda>d application. upsert (convertApplicationToMap application) d) []
                           applications
                   in case Iterate (Applications_Next client)
                             (\<lambda>application d. upsert (convertApplicationToMap application) d)
                             result applicationsData of
                        None \<Rightarrow> None
                      | Some (applicationsData, Some err) \<Rightarrow> Some (Inl err)
                      | Some (applicationsData, None) \<Rightarrow> Some (Inr (Some applicationsData)))))"

text \<open>Lines 56 to 108 of \<^verbatim>\<open>Get\<close> for sites: the collection of the sites, before
  the subsites and pages are added. The iterator is made only when the first response
  has a link that is not empty.\<close>

definition collectSites ::
  "graphClient \<Rightarrow> queryParameters option \<Rightarrow> (error + collection option) option" where
  "collectSites client params =
     (case Sites_Get client (defaultSiteParameters params) of
           Inl err \<Rightarrow> Some (Inl err)
         | Inr result \<Rightarrow>
             (case GetValue result of
                None \<Rightarrow> Some (Inr None)
              | Some sites \<Rightarrow>
                  (let sitesData = foldl (\<lambda>d site. upsert (convertSiteToMap site) d) [] sites
                   in case GetOdataNextLink result of
                        None \<Rightarrow> Some (Inr (Some sitesData))
                      | Some link \<Rightarrow>
                          if link = [] then Some (Inr (Some sitesData))
                          else (case Iterate (Sites_Next client) (\<lambda>site d. upsert (convertSiteToMap site) d)
                                       result sitesData of
                                  None \<Rightarrow> None
                                | Some (sitesData, Some err) \<Rightarrow>
                                    Some (Inl (Errorf ''error iterating over sites: '' err))
                                | Some (sitesData, None) \<Rightarrow> Some (Inr (Some sitesData))))))"

text \<open>\<^verbatim>\<open>GetSubsites\<close> and \<^verbatim>\<open>GetPages\<close> return the records gathered so far together
  with the error.\<close>

definition GetSubsites :: "graphClient \<Rightarrow> string \<Rightarrow> (site list \<times> error option) option" where
  "GetSubsites client siteId =
     (case Subsites_Get client siteId of
        Inl err \<Rightarrow> Some ([], Some (Errorf ''error fetching subsites: '' err))
      | Inr subsitesResponse \<Rightarrow>
          (let subsites = (case GetValue subsitesResponse of None \<Rightarrow> [] | Some v \<Rightarrow> v)
           in case GetOdataNextLink subsitesResponse of
                None \<Rightarrow> Some (subsites, None)
              | Some link \<Rightarrow>
                  (case Iterate (Sites_Next client) (\<lambda>subsite acc. acc @ [subsite])
                          subsitesResponse subsites of
                     None \<Rightarrow> None
                   | Some (subsites, Some err) \<Rightarrow>
                       Some (subsites, Some (Errorf ''error iterating through subsites: '' err))
                   | Some (subsites, None) \<Rightarrow> Some (subsites, None))))"

definition GetPages :: "graphClient \<Rightarrow> string \<Rightarrow> (sitePage list \<times> error option) option" where
  "GetPages client siteId =
     (case Pages_Get client siteId of
        Inl err \<Rightarrow> Some ([], Some (Errorf ''error fetching pages: '' err))
      | Inr pagesResponse \<Rightarrow>
          (let pages = (case GetValue pagesResponse of None \<Rightarrow> [] | Some v \<Rightarrow> v)
           in case GetOdataNextLink pagesResponse of
                None \<Rightarrow> Some (pages, None)
              | Some link \<Rightarrow>
                  (case Iterate (Pages_Next client) (\<lambda>page acc. acc @ [page]) pagesResponse pages of
                     None \<Rightarrow> None
                   | Some (pages, Some err) \<Rightarrow>
                       Some (pages, Some (Errorf ''error iterating through pages: '' err))
                   | Some (pages, None) \<Rightarrow> Some (pages, None))))"

section \<open>Bulk site enrichment\<close>

text \<open>The loop over the pages of one site (lines 130 to 139): an error of
  \<^verbatim>\<open>getPageContent\<close> becomes the content \<^verbatim>\<open>"Error fetching content"\<close>; a panic is
  not an error value and ends the run.\<close>

fun pagesLoop ::
  "(string \<Rightarrow> string) \<Rightarrow> graphClient \<Rightarrow> string \<Rightarrow> sitePage list \<Rightarrow> attrs \<Rightarrow> error + attrs" where
  "pagesLoop decodeEntities client siteId [] pageData = Inr pageData"
| "pagesLoop decodeEntities client siteId (page # pages) pageData =
     (case getPageContent decodeEntities (Page_Get client) siteId (fst (convertSitePageToMap page))
             ''markdown'' of
        Inr content \<Rightarrow>
          pagesLoop decodeEntities client siteId pages
            (pageData(fst (convertSitePageToMap page) \<mapsto>
               AMap ((snd (convertSitePageToMap page))(''content'' \<mapsto> AString content))))
      | Inl (Err msg) \<Rightarrow>
          pagesLoop decodeEntities client siteId pages
            (pageData(fst (convertSitePageToMap page) \<mapsto>
               AMap ((snd (convertSitePageToMap page))
                       (''content'' \<mapsto> AString ''Error fetching content''))))
      | Inl NilDereference \<Rightarrow> Inl NilDereference)"

text \<open>The body of the loop over the sites (lines 110 to 144): \<^verbatim>\<open>continue\<close> leaves
  the site as it is by then.\<close>

definition enrichSite ::
  "(string \<Rightarrow> string) \<Rightarrow> graphClient \<Rightarrow> string \<Rightarrow> attrs \<Rightarrow> (error + attrs) option" where
  "enrichSite decodeEntities client siteId site =
     (case GetSubsites client siteId of
        None \<Rightarrow> None
      | Some (subsites, Some err) \<Rightarrow> Some (Inr site)
      | Some (subsites, None) \<Rightarrow>
          (let subsiteData =
                 foldl (\<lambda>d subsite.
                          d(fst (convertSiteToMap subsite) \<mapsto> AMap (snd (convertSiteToMap subsite))))
                   Map.empty subsites;
               site = site(''subsites'' \<mapsto> AMap subsiteData)
           in case GetPages client siteId of
                None \<Rightarrow> None
              | Some (pages, Some err) \<Rightarrow> Some (Inr site)
              | Some (pages, None) \<Rightarrow>
                  (case pagesLoop decodeEntities client siteId pages Map.empty of
                     Inl e \<Rightarrow> Some (Inl e)
                   | Inr pageData \<Rightarrow> Some (Inr (site(''pages'' \<mapsto> AMap pageData))))))"

text \<open>\<^verbatim>\<open>for id, site := range sitesData\<close>: each turn changes the entry of its own key
  only, so the entries are taken in the order of the list.\<close>

fun enrichSites ::
  "(string \<Rightarrow> string) \<Rightarrow> graphClient \<Rightarrow> collection \<Rightarrow> (error + collection) option" where
  "enrichSites decodeEntities client [] = Some (Inr [])"
| "enrichSites decodeEntities client (entry # entries) =
     (case enrichSite decodeEntities client (fst entry) (snd entry) of
        None \<Rightarrow> None
      | Some (Inl e) \<Rightarrow> Some (Inl e)
      | Some (Inr site) \<Rightarrow>
          (case enrichSites decodeEntities client entries of
             None \<Rightarrow> None
           | Some (Inl e) \<Rightarrow> Some (Inl e)
           | Some (Inr others) \<Rightarrow> Some (Inr ((fst entry, site) # others))))"

definition sites_Get ::
  "(string \<Rightarrow> string) \<Rightarrow> graphClient \<Rightarrow> queryParameters option \<Rightarrow> (error + collection option) option" where
  "sites_Get decodeEntities client params =
     (case collectSites client params of
        None \<Rightarrow> None
      | Some (Inl err) \<Rightarrow> Some (Inl err)
      | Some (Inr None) \<Rightarrow> Some (Inr None)
      | Some (Inr (Some sitesData)) \<Rightarrow>
          (case enrichSites decodeEntities client sitesData of
             None \<Rightarrow> None
           | Some (Inl e) \<Rightarrow> Some (Inl e)
           | Some (Inr enriched) \<Rightarrow> Some (Inr (Some enriched))))"

text \<open>
  The entry of a page in the output, as the specification describes it: the attributes
  of the page with the rendered document under \<^verbatim>\<open>content\<close>, or the sentinel text when
  the page content service returned an error.
\<close>

definition pageEntry :: "(string \<Rightarrow> string) \<Rightarrow> graphClient \<Rightarrow> string \<Rightarrow> sitePage \<Rightarrow> any" where
  "pageEntry decodeEntities client siteId page =
     AMap ((snd (convertSitePageToMap page))
             (''content'' \<mapsto>
                AString (case getPageContent decodeEntities (Page_Get client) siteId
                                (fst (convertSitePageToMap page)) ''markdown'' of
                           Inr content \<Rightarrow> content
                         | Inl err \<Rightarrow> ''Error fetching content'')))"

text \<open>The page content service returns for this page, with a document or an error, and
  does not panic.\<close>

definition rendersWithoutPanic :: "(string \<Rightarrow> string) \<Rightarrow> graphClient \<Rightarrow> string \<Rightarrow> sitePage \<Rightarrow> bool" where
  "rendersWithoutPanic decodeEntities client siteId page =
     (getPageContent decodeEntities (Page_Get client) siteId (fst (convertSitePageToMap page))
        ''markdown'' \<noteq> Inl NilDereference)"

text \<open>The enrichment of a site comes to an end: the requests for its subsites and its
  pages return and, when both succeed, no page of the site makes the page content service
  panic.\<close>

definition siteCompletes :: "(string \<Rightarrow> string) \<Rightarrow> graphClient \<Rightarrow> string \<Rightarrow> bool" where
  "siteCompletes decodeEntities client siteId =
     (case GetSubsites client siteId of
        None \<Rightarrow> False
      | Some (subsites, Some err) \<Rightarrow> True
      | Some (subsites, None) \<Rightarrow>
          (case GetPages client siteId of
             None \<Rightarrow> False
           | Some (pages, Some err) \<Rightarrow> True
           | Some (pages, None) \<Rightarrow> list_all (rendersWithoutPanic decodeEntities client siteId) pages))"

section \<open>Example inputs\<close>

text \<open>Records with every getter nil, from which the examples below are made.\<close>

definition blankSite :: site where
  "blankSite =
     \<lparr>site_GetId = None, site_GetDisplayName = None, site_GetIsPersonalSite = None,
      site_GetAnalytics = None, site_GetError = None, site_GetSharepointIds = None,
      site_GetSiteCollection = None, site_GetAdditionalData = None\<rparr>"

definition blankPage :: sitePage where
  "blankPage =
     \<lparr>page_GetId = None, page_GetPageLayout = None, page_GetPublishingState = None,
      page_GetTitle = None, page_GetDescription = None, page_GetCanvasLayout = None,
      page_GetAdditionalData = None\<rparr>"

definition blankUser :: user where
  "blankUser =
     \<lparr>user_GetId = None, user_GetDisplayName = None, user_GetUserPrincipalName = None,
      user_GetMail = None, user_GetGivenName = None, user_GetSurname = None,
      user_GetJobTitle = None, user_GetMobilePhone = None, user_GetOfficeLocation = None,
      user_GetBusinessPhones = None, user_GetAccountEnabled = None, user_GetCity = None,
      user_GetCountry = None, user_GetDepartment = None, user_GetCompanyName = None,
      user_GetStreetAddress = None, user_GetPostalCode = None, user_GetState = None,
      user_GetPreferredLanguage = None, user_GetEmployeeId = None,
      user_GetAdditionalData = None\<rparr>"

definition blankApplication :: application where
  "blankApplication =
     \<lparr>app_GetId = None, app_GetDisplayName = None, app_GetAppId = None,
      app_GetPublisherDomain = None, app_GetCreatedDateTime = None,
      app_GetApplicationTemplateId = None, app_GetDefaultRedirectUri = None,
      app_GetDescription = None, app_GetDisabledByMicrosoftStatus = None,
      app_GetGroupMembershipClaims = None, app_GetIsDeviceOnlyAuthSupported = None,
      app_GetIsFallbackPublicClient = None, app_GetNotes = None,
      app_GetOauth2RequirePostResponse = None, app_GetSamlMetadataUrl = None,
      app_GetServiceManagementReference = None, app_GetSignInAudience = None,
      app_GetTags = None, app_GetTokenEncryptionKeyId = None, app_GetUniqueName = None,
      app_GetLogo = [], app_GetApi = None, app_GetWeb = None, app_GetSpa = None,
      app_GetCertification = None, app_GetInfo = None, app_GetVerifiedPublisher = None,
      app_GetAdditionalData = None\<rparr>"

text \<open>A record of each kind whose additional data has the key \<^verbatim>\<open>displayName\<close> (for a
  page, \<^verbatim>\<open>title\<close>) that a typed field has too.\<close>

definition siteOverride :: site where
  "siteOverride =
     blankSite\<lparr>site_GetId := Some ''s1'', site_GetDisplayName := Some ''Typed'',
               site_GetAdditionalData := Some [''displayName'' \<mapsto> AString ''Additional'']\<rparr>"

definition pageOverride :: sitePage where
  "pageOverride =
     blankPage\<lparr>page_GetId := Some ''p1'', page_GetTitle := Some ''Typed'',
               page_GetAdditionalData := Some [''title'' \<mapsto> AString ''Additional'']\<rparr>"

definition userOverride :: user where
  "userOverride =
     blankUser\<lparr>user_GetId := Some ''u1'', user_GetDisplayName := Some ''Typed'',
               user_GetAdditionalData := Some [''displayName'' \<mapsto> AString ''Additional'']\<rparr>"

definition applicationOverride :: application where
  "applicationOverride =
     blankApplication\<lparr>app_GetId := Some ''a1'', app_GetDisplayName := Some ''Typed'',
                      app_GetAdditionalData := Some [''displayName'' \<mapsto> AString ''Additional'']\<rparr>"

text \<open>The content block of the specification's concrete case: the backing store holds
  \<^verbatim>\<open>innerHtml\<close> = \<^verbatim>\<open><p>A</p>\<close>, the additional data holds \<^verbatim>\<open>text\<close> = \<^verbatim>\<open>B\<close>. One
  page has it in the only column of its only horizontal section, the other in its
  vertical section.\<close>

definition blockAB :: webPart where
  "blockAB =
     \<lparr>wp_GoType = ''*models.TextWebPart'',
      wp_GetBackingStore = Some [''innerHtml'' \<mapsto> AStringPtr (Some ''<p>A</p>'')],
      wp_GetAdditionalData = Some [''text'' \<mapsto> AString ''B'']\<rparr>"

definition pageColumnAB :: sitePage where
  "pageColumnAB =
     blankPage\<lparr>page_GetCanvasLayout :=
       Some \<lparr>GetHorizontalSections =
               Some [\<lparr>sec_GetLayout = Some ''oneColumn'',
                      sec_GetColumns = Some [\<lparr>col_GetWebparts = Some [blockAB]\<rparr>]\<rparr>],
             GetVerticalSection = None\<rparr>\<rparr>"

definition pageVerticalAB :: sitePage where
  "pageVerticalAB =
     blankPage\<lparr>page_GetCanvasLayout :=
       Some \<lparr>GetHorizontalSections = None,
             GetVerticalSection = Some \<lparr>vert_GetWebparts = Some [blockAB]\<rparr>\<rparr>\<rparr>"

text \<open>Two pages whose canvas layout has no horizontal section and no block in the
  vertical section; the second has a title.\<close>

definition pageEmpty :: sitePage where
  "pageEmpty =
     blankPage\<lparr>page_GetCanvasLayout :=
       Some \<lparr>GetHorizontalSections = Some [],
             GetVerticalSection = Some \<lparr>vert_GetWebparts = Some []\<rparr>\<rparr>\<rparr>"

definition pageTitledEmpty :: sitePage where
  "pageTitledEmpty = pageEmpty\<lparr>page_GetTitle := Some ''Welcome''\<rparr>"

text \<open>A service that answers every request for a page with the given page.\<close>

definition fetches :: "sitePage \<Rightarrow> string \<Rightarrow> string \<Rightarrow> error + sitePage" where
  "fetches page siteId pageId = Inr page"

text \<open>Two sites without identifier.\<close>

definition siteNoIdFirst :: site where
  "siteNoIdFirst = blankSite\<lparr>site_GetDisplayName := Some ''First''\<rparr>"

definition siteNoIdLast :: site where
  "siteNoIdLast = blankSite\<lparr>site_GetDisplayName := Some ''Last''\<rparr>"

text \<open>A service whose first page of every collection has one record and a link, and
  that fails every other request.\<close>

definition firstUsers :: "user collectionResponse" where
  "firstUsers = \<lparr>GetValue = Some [userOverride], GetOdataNextLink = Some ''users?page=2''\<rparr>"

definition firstApplications :: "application collectionResponse" where
  "firstApplications =
     \<lparr>GetValue = Some [applicationOverride], GetOdataNextLink = Some ''applications?page=2''\<rparr>"

definition firstSites :: "site collectionResponse" where
  "firstSites = \<lparr>GetValue = Some [siteOverride], GetOdataNextLink = Some ''sites?page=2''\<rparr>"

definition brokenClient :: graphClient where
  "brokenClient =
     \<lparr>Users_Get = (\<lambda>params. Inr firstUsers),
      Users_Next = (\<lambda>link. Inl (Err ''timeout'')),
      Applications_Get = (\<lambda>params. Inr firstApplications),
      Applications_Next = (\<lambda>link. Inl (Err ''timeout'')),
      Sites_Get = (\<lambda>params. Inr firstSites),
      Sites_Next = (\<lambda>link. Inl (Err ''timeout'')),
      Subsites_Get = (\<lambda>siteId. Inl (Err ''timeout'')),
      Pages_Get = (\<lambda>siteId. Inl (Err ''timeout'')),
      Pages_Next = (\<lambda>link. Inl (Err ''timeout'')),
      Page_Get = (\<lambda>siteId pageId. Inl (Err ''timeout''))\<rparr>"

text \<open>A service with one site, \<^verbatim>\<open>s1\<close>, that has no subsite and two pages: the page
  \<^verbatim>\<open>good\<close> can be fetched, the request for the page \<^verbatim>\<open>bad\<close> fails.\<close>

definition pageGood :: sitePage where
  "pageGood = pageEmpty\<lparr>page_GetId := Some ''good''\<rparr>"

definition pageBad :: sitePage where
  "pageBad = blankPage\<lparr>page_GetId := Some ''bad''\<rparr>"

definition pagesClient :: graphClient where
  "pagesClient =
     \<lparr>Users_Get = (\<lambda>params. Inl (Err ''not asked'')),
      Users_Next = (\<lambda>link. Inl (Err ''not asked'')),
      Applications_Get = (\<lambda>params. Inl (Err ''not asked'')),
      Applications_Next = (\<lambda>link. Inl (Err ''not asked'')),
      Sites_Get = (\<lambda>params. Inr \<lparr>GetValue = Some [siteOverride], GetOdataNextLink = None\<rparr>),
      Sites_Next = (\<lambda>link. Inl (Err ''not asked'')),
      Subsites_Get = (\<lambda>siteId. Inr \<lparr>GetValue = Some [], GetOdataNextLink = None\<rparr>),
      Pages_Get = (\<lambda>siteId. Inr \<lparr>GetValue = Some [pageGood, pageBad], GetOdataNextLink = None\<rparr>),
      Pages_Next = (\<lambda>link. Inl (Err ''not asked'')),
      Page_Get = (\<lambda>siteId pageId. if pageId = ''good'' then Inr pageGood else Inl (Err ''not found''))\<rparr>"

text \<open>A service with two pages of sites: the first page has a site without identifier
  and a link, the second page has another site without identifier and the site
  \<^verbatim>\<open>s1\<close>.\<close>

definition secondSites :: "site collectionResponse" where
  "secondSites = \<lparr>GetValue = Some [siteNoIdLast, siteOverride], GetOdataNextLink = None\<rparr>"

definition twoPageClient :: graphClient where
  "twoPageClient =
     brokenClient
       \<lparr>Sites_Get := (\<lambda>params. Inr \<lparr>GetValue = Some [siteNoIdFirst],
                                     GetOdataNextLink = Some ''sites?page=2''\<rparr>),
        Sites_Next := (\<lambda>link. if link = ''sites?page=2'' then Inr secondSites
                               else Inl (Err ''not found''))\<rparr>"

section \<open>Termination of the unwrapping loop\<close>

lemma stripPrefix_length:
  "stripPrefix p s = Some rest \<Longrightarrow> length s = length p + length rest"
  by (induction p s rule: stripPrefix.induct) (auto split: if_splits)

lemma afterGt_length: "afterGt s = Some rest \<Longrightarrow> length rest < length s"
  by (induction s) (auto split: if_splits)

lemma lazyUntil_length:
  "lazyUntil closing s = Some (v, rest) \<Longrightarrow> length s = length v + length closing + length rest"
proof (induction s arbitrary: v)
  case Nil
  then show ?case
    by (auto split: option.splits dest: stripPrefix_length)
next
  case (Cons c cs)
  show ?case
  proof (cases "stripPrefix closing (c # cs)")
    case (Some r)
    with Cons.prems show ?thesis
      by (auto dest: stripPrefix_length)
  next
    case None
    with Cons.prems obtain v' where "lazyUntil closing cs = Some (v', rest)" "v = c # v'"
      by (auto split: if_splits option.splits)
    with Cons.IH [of v'] show ?thesis
      by simp
  qed
qed

lemma element_length:
  "element opening closing s = Some (v, rest) \<Longrightarrow>
     length v + length opening + length closing + length rest < length s"
  unfolding element_def
  by (auto split: option.splits
           dest!: stripPrefix_length afterGt_length lazyUntil_length)

lemma namedElementRegex_length:
  "namedElementRegex ns s = Some (g, rest) \<Longrightarrow>
     length g = 2 \<and> length (g ! 1) + length rest < length s \<and> length rest < length s"
  by (induction ns) (auto split: option.splits dest!: element_length)

lemma divRegex_length:
  "divRegex s = Some (g, rest) \<Longrightarrow> length (g ! 1) + length rest < length s"
  unfolding divRegex_def
  by (drule namedElementRegex_length) simp

lemma replaceFrom_divRegex_le:
  "length (replaceFrom divRegex (\<lambda>g. g ! 1) k s) \<le> length s - k"
proof (induction "divRegex" "\<lambda>g :: string list. g ! 1" k s rule: replaceFrom.induct)
  case (1 k)
  then show ?case by simp
next
  case (2 k c cs)
  then show ?case by simp
next
  case (3 c cs)
  show ?case
  proof (cases "divRegex (c # cs)")
    case None
    with 3 show ?thesis by simp
  next
    case (Some m)
    obtain g rest where m: "m = (g, rest)" by (cases m)
    from Some m have "length (g ! 1) + length rest < length (c # cs)"
      using divRegex_length [of "c # cs" g rest] by simp
    moreover from 3(2) [OF Some m [symmetric]]
    have "length (replaceFrom divRegex (\<lambda>g. g ! 1) (length cs - length rest) cs)
            \<le> length cs - (length cs - length rest)" .
    ultimately show ?thesis
      using Some m by simp
  qed
qed

lemma replaceFrom_divRegex_less:
  "MatchString divRegex s \<Longrightarrow> length (replaceFrom divRegex (\<lambda>g. g ! 1) 0 s) < length s"
proof (induction s)
  case Nil
  then show ?case by simp
next
  case (Cons c cs)
  show ?case
  proof (cases "divRegex (c # cs)")
    case None
    with Cons show ?thesis by simp
  next
    case (Some m)
    obtain g rest where m: "m = (g, rest)" by (cases m)
    from Some m have "length (g ! 1) + length rest < length (c # cs)"
      using divRegex_length [of "c # cs" g rest] by simp
    moreover have "length (replaceFrom divRegex (\<lambda>g. g ! 1) (length cs - length rest) cs)
                     \<le> length cs - (length cs - length rest)"
      by (rule replaceFrom_divRegex_le)
    ultimately show ?thesis
      using Some m by simp
  qed
qed

termination unwrapDivs
proof (relation "measure length")
  show "wf (measure length)"
    by simp
next
  fix unescaped
  assume "MatchString divRegex unescaped"
  then show "(ReplaceAllString divRegex (\<lambda>g. g ! 1) unescaped, unescaped) \<in> measure length"
    unfolding ReplaceAllString_def in_measure
    by (rule replaceFrom_divRegex_less)
qed

section \<open>The transducer on concrete inputs\<close>

lemma htmlToMarkdown_no_ampersand:
  "CHR ''&'' \<notin> set s \<Longrightarrow> htmlToMarkdown decodeEntities s = htmlToMarkdown id s"
  by (simp add: htmlToMarkdown_def UnescapeString_def)

text \<open>
  C9, as the code has it: on \<^verbatim>\<open><h2>Title</h2>\<close> the heading rule writes the level-2
  prefix, the title and a blank line, and the final \<^verbatim>\<open>strings.TrimSpace\<close> removes the
  blank line again, so the transducer returns \<^verbatim>\<open>## Title\<close> with nothing after it.
\<close>

theorem heading_conversion_trimmed:
  "ReplaceAllString h2Regex (\<lambda>g. ''## '' @ g ! 0 @ LF @ LF) ''<h2>Title</h2>''
     = ''## Title'' @ LF @ LF
   \<and> htmlToMarkdown decodeEntities ''<h2>Title</h2>'' = ''## Title''"
proof -
  have "ReplaceAllString h2Regex (\<lambda>g. ''## '' @ g ! 0 @ LF @ LF) ''<h2>Title</h2>''
          = ''## Title'' @ LF @ LF"
    by code_simp
  moreover have "htmlToMarkdown id ''<h2>Title</h2>'' = ''## Title''"
    by code_simp
  moreover have "htmlToMarkdown decodeEntities ''<h2>Title</h2>'' = htmlToMarkdown id ''<h2>Title</h2>''"
    by (rule htmlToMarkdown_no_ampersand) simp
  ultimately show ?thesis
    by simp
qed

text \<open>C9 as the specification states it, with the blank line kept in the output, does
  not hold.\<close>

theorem heading_conversion_counterexample:
  "htmlToMarkdown id ''<h2>Title</h2>'' \<noteq> ''## Title'' @ LF @ LF"
  by code_simp

text \<open>
  C2 at the input \<^verbatim>\<open><ol><li>a</li><li>b</li></ol>\<close>: the rule for unordered lists runs
  first and rewrites every \<^verbatim>\<open><li>\<close> item with the prefix \<^verbatim>\<open>- \<close>, so the rule for
  ordered lists finds no item left, and the output is \<^verbatim>\<open>- a\<close>, \<^verbatim>\<open>- b\<close> on two lines:
  no item carries the prefix \<^verbatim>\<open>1. \<close>.
\<close>

theorem ordered_list_items_get_dash:
  "htmlToMarkdown decodeEntities ''<ol><li>a</li><li>b</li></ol>'' = ''- a'' @ LF @ ''- b''"
proof -
  have "htmlToMarkdown id ''<ol><li>a</li><li>b</li></ol>'' = ''- a'' @ LF @ ''- b''"
    by code_simp
  moreover have "htmlToMarkdown decodeEntities ''<ol><li>a</li><li>b</li></ol>''
                   = htmlToMarkdown id ''<ol><li>a</li><li>b</li></ol>''"
    by (rule htmlToMarkdown_no_ampersand) simp
  ultimately show ?thesis
    by simp
qed

text \<open>
  C3 at the inputs \<^verbatim>\<open><b>x</b>\<close>, \<^verbatim>\<open><strong>x</strong>\<close>, \<^verbatim>\<open><i>x</i>\<close> and
  \<^verbatim>\<open><em>x</em>\<close>: the patterns for bold and italic ask for the closing text
  \<^verbatim>\<open></\1>\<close> literally, which none of these inputs contains, so neither rule rewrites
  anything; the tags are removed by the rule for the remaining tags and the output is the
  bare content, without asterisks.
\<close>

theorem bold_italic_lose_markers:
  "htmlToMarkdown decodeEntities ''<b>x</b>'' = ''x''
   \<and> htmlToMarkdown decodeEntities ''<strong>x</strong>'' = ''x''
   \<and> htmlToMarkdown decodeEntities ''<i>x</i>'' = ''x''
   \<and> htmlToMarkdown decodeEntities ''<em>x</em>'' = ''x''"
proof -
  have "htmlToMarkdown id ''<b>x</b>'' = ''x''"
    by code_simp
  moreover have "htmlToMarkdown id ''<strong>x</strong>'' = ''x''"
    by code_simp
  moreover have "htmlToMarkdown id ''<i>x</i>'' = ''x''"
    by code_simp
  moreover have "htmlToMarkdown id ''<em>x</em>'' = ''x''"
    by code_simp
  ultimately show ?thesis
    using htmlToMarkdown_no_ampersand [of "''<b>x</b>''" decodeEntities]
          htmlToMarkdown_no_ampersand [of "''<strong>x</strong>''" decodeEntities]
          htmlToMarkdown_no_ampersand [of "''<i>x</i>''" decodeEntities]
          htmlToMarkdown_no_ampersand [of "''<em>x</em>''" decodeEntities]
    by simp
qed

section \<open>The resource normalizers: additional data and nil\<close>

text \<open>
  C6: for a site, a site page, a user and an application, a key of the additional data
  has, in the attribute mapping, the value the additional data gives it, whatever a typed
  field wrote under the same key before.
\<close>

theorem additional_data_overrides_typed_fields:
  "(site_GetAdditionalData site = Some sad \<and> sad k = Some v
      \<longrightarrow> snd (convertSiteToMap site) k = Some v)
   \<and> (page_GetAdditionalData page = Some pad \<and> pad k = Some v
      \<longrightarrow> snd (convertSitePageToMap page) k = Some v)
   \<and> (user_GetAdditionalData user = Some uad \<and> uad k = Some v
      \<longrightarrow> snd (convertUserToMap user) k = Some v)
   \<and> (app_GetAdditionalData application = Some aad \<and> aad k = Some v
      \<longrightarrow> snd (convertApplicationToMap application) k = Some v)"
proof (intro conjI impI)
  assume "site_GetAdditionalData site = Some sad \<and> sad k = Some v"
  then show "snd (convertSiteToMap site) k = Some v"
    by (simp add: convertSiteToMap_def Let_def)
next
  assume "page_GetAdditionalData page = Some pad \<and> pad k = Some v"
  then show "snd (convertSitePageToMap page) k = Some v"
    by (simp add: convertSitePageToMap_def Let_def)
next
  assume "user_GetAdditionalData user = Some uad \<and> uad k = Some v"
  then show "snd (convertUserToMap user) k = Some v"
    by (simp add: convertUserToMap_def Let_def)
next
  assume "app_GetAdditionalData application = Some aad \<and> aad k = Some v"
  then show "snd (convertApplicationToMap application) k = Some v"
    by (simp add: convertApplicationToMap_def Let_def)
qed

theorem additional_data_overrides_typed_fields_witness:
  "snd (convertSiteToMap siteOverride) ''displayName'' = Some (AString ''Additional'')
   \<and> snd (convertSitePageToMap pageOverride) ''title'' = Some (AString ''Additional'')
   \<and> snd (convertUserToMap userOverride) ''displayName'' = Some (AString ''Additional'')
   \<and> snd (convertApplicationToMap applicationOverride) ''displayName'' = Some (AString ''Additional'')"
  using additional_data_overrides_typed_fields
    [where site = siteOverride and sad = "[''displayName'' \<mapsto> AString ''Additional'']"
       and k = "''displayName''" and v = "AString ''Additional''"
       and user = userOverride and uad = "[''displayName'' \<mapsto> AString ''Additional'']"
       and application = applicationOverride
       and aad = "[''displayName'' \<mapsto> AString ''Additional'']"
       and page = blankPage and pad = Map.empty]
    additional_data_overrides_typed_fields
    [where page = pageOverride and pad = "[''title'' \<mapsto> AString ''Additional'']"
       and k = "''title''" and v = "AString ''Additional''"
       and site = blankSite and sad = Map.empty
       and user = blankUser and uad = Map.empty
       and application = blankApplication and aad = Map.empty]
  by (simp add: siteOverride_def pageOverride_def userOverride_def applicationOverride_def
        blankSite_def blankPage_def blankUser_def blankApplication_def)






section \<open>The page content service on concrete pages\<close>

text \<open>
  C1 at the specification's concrete case: in a column the block resolves to the content
  of the backing store's \<^verbatim>\<open>innerHtml\<close>, converted; in the vertical section the
  backing store is never consulted, and the same block resolves to the additional-data
  \<^verbatim>\<open>text\<close>.
\<close>

theorem vertical_section_skips_backing_store:
  "getPageContent decodeEntities (fetches pageColumnAB) ''site'' ''page'' ''markdown''
     = Inr (''A'' @ LF @ LF)
   \<and> getPageContent decodeEntities (fetches pageVerticalAB) ''site'' ''page'' ''markdown''
     = Inr (''B'' @ LF @ LF)"
proof -
  have "htmlToMarkdown id ''<p>A</p>'' = ''A''"
    by code_simp
  then have a: "htmlToMarkdown decodeEntities ''<p>A</p>'' = ''A''"
    using htmlToMarkdown_no_ampersand [of "''<p>A</p>''" decodeEntities] by simp
  have "getPageContent decodeEntities (fetches pageColumnAB) ''site'' ''page'' ''markdown''
          = Inr (''A'' @ LF @ LF)"
    by (simp add: getPageContent_def fetches_def renderPage_def walkCanvasLayout_def
          walkHorizontalSections_def walkVerticalSection_def walkSection_def walkColumn_def
          columnWebPart_def fromBackingStore_def pageColumnAB_def blankPage_def blockAB_def a)
  moreover
  have "getPageContent decodeEntities (fetches pageVerticalAB) ''site'' ''page'' ''markdown''
          = Inr (''B'' @ LF @ LF)"
    by (simp add: getPageContent_def fetches_def renderPage_def walkCanvasLayout_def
          walkHorizontalSections_def walkVerticalSection_def verticalWebPart_def
          fromAdditionalData_def fromInnerHtml_def fromText_def
          pageVerticalAB_def blankPage_def blockAB_def)
  ultimately show ?thesis
    by simp
qed

text \<open>
  C7, as the code has it: a page without title and without description whose canvas
  layout has no horizontal section and no block in the vertical section is rendered, in
  the Markdown format, as the fallback text, and that is a result, not an error.
\<close>

theorem no_content_fallback:
  assumes "fetchPage siteId pageId = Inr page"
    and "page_GetTitle page = None"
    and "page_GetDescription page = None"
    and "page_GetCanvasLayout page = Some layout"
    and "GetHorizontalSections layout = None \<or> GetHorizontalSections layout = Some []"
    and "GetVerticalSection layout = None
         \<or> (\<exists>v. GetVerticalSection layout = Some v
                \<and> (vert_GetWebparts v = None \<or> vert_GetWebparts v = Some []))"
  shows "getPageContent decodeEntities fetchPage siteId pageId ''markdown''
           = Inr ''*No detailed content available. Use the page URL to view in browser.*''"
proof -
  from assms(5) have "walkHorizontalSections decodeEntities ''markdown'' layout = Inr []"
    by (auto simp: walkHorizontalSections_def)
  moreover from assms(6) have "walkVerticalSection decodeEntities ''markdown'' layout = Inr []"
    by (auto simp: walkVerticalSection_def)
  ultimately have "walkCanvasLayout decodeEntities ''markdown'' page = Inr []"
    using assms(4) by (simp add: walkCanvasLayout_def)
  with assms(1-3) show ?thesis
    by (simp add: getPageContent_def renderPage_def)
qed

theorem no_content_fallback_witness:
  "getPageContent id (fetches pageEmpty) ''site'' ''page'' ''markdown''
     = Inr ''*No detailed content available. Use the page URL to view in browser.*''"
  using no_content_fallback
    [of "fetches pageEmpty" "''site''" "''page''" pageEmpty
        "\<lparr>GetHorizontalSections = Some [], GetVerticalSection = Some \<lparr>vert_GetWebparts = Some []\<rparr>\<rparr>" id]
  by (simp add: fetches_def pageEmpty_def blankPage_def)

text \<open>C7 as the specification states it, for every page with such a layout, does not
  hold: with a title the page is rendered as its title.\<close>

theorem no_content_fallback_counterexample:
  "getPageContent id (fetches pageTitledEmpty) ''site'' ''page'' ''markdown''
     \<noteq> Inr ''*No detailed content available. Use the page URL to view in browser.*''"
  by (simp add: getPageContent_def fetches_def renderPage_def walkCanvasLayout_def
        walkHorizontalSections_def walkVerticalSection_def
        pageTitledEmpty_def pageEmpty_def blankPage_def)

section \<open>Aggregation: a failing continuation page, and sites without identifier\<close>

lemma Iterate_fails:
  "continuationFails fetchNext page err
     \<Longrightarrow> \<exists>reached. Iterate fetchNext callback page acc = Some (reached, Some err)"
proof (induction arbitrary: acc rule: continuationFails.induct)
  case (here page link err)
  then show ?case
    by (subst Iterate.simps) simp
next
  case (later page link nextPage err)
  from later.IH obtain reached where
    "Iterate fetchNext callback nextPage
       (foldl (\<lambda>a r. callback r a) acc
          (case GetValue nextPage of None \<Rightarrow> [] | Some records \<Rightarrow> records))
     = Some (reached, Some err)"
    by blast
  with later.hyps show ?case
    by (subst Iterate.simps) simp
qed

lemma Iterate_foldl:
  assumes "Iterate fetchNext callback page acc = Some y"
  shows "\<exists>records. fst y = foldl (\<lambda>a r. callback r a) acc records"
proof (rule Iterate.raw_induct
         [where P = "\<lambda>fetchNext callback page acc y.
                       \<exists>records. fst y = foldl (\<lambda>a r. callback r a) acc records",
          OF _ assms], goal_cases)
  case (1 Iterate' fetchNext callback currentPage acc y)
  note IH = 1(1) and step = 1(2)
  show ?case
  proof (cases "GetOdataNextLink currentPage")
    case None
    with step have "fst y = foldl (\<lambda>a r. callback r a) acc []"
      by auto
    then show ?thesis
      by blast
  next
    case (Some link)
    show ?thesis
    proof (cases "link = []")
      case True
      with Some step have "fst y = foldl (\<lambda>a r. callback r a) acc []"
        by auto
      then show ?thesis
        by blast
    next
      case False
      show ?thesis
      proof (cases "fetchNext link")
        case (Inl err)
        with Some False step have "fst y = foldl (\<lambda>a r. callback r a) acc []"
          by auto
        then show ?thesis
          by blast
      next
        case (Inr nextPage)
        let ?new = "case GetValue nextPage of None \<Rightarrow> [] | Some records \<Rightarrow> records"
        from Some False Inr step
        have "Iterate' fetchNext callback nextPage (foldl (\<lambda>a r. callback r a) acc ?new) = Some y"
          by simp
        from IH [OF this] obtain records where
          "fst y = foldl (\<lambda>a r. callback r a) (foldl (\<lambda>a r. callback r a) acc ?new) records"
          by blast
        then have "fst y = foldl (\<lambda>a r. callback r a) acc (?new @ records)"
          by simp
        then show ?thesis
          by blast
      qed
    qed
  qed
qed




text \<open>
  C5: when, in a run of \<^verbatim>\<open>Get\<close> for users, applications or sites, fetching a
  continuation page fails, the run returns the error (for sites, wrapped in a message)
  and no collection: the result is the error alone.
\<close>

theorem continuation_failure_returns_error_only:
  "(Users_Get client (defaultParameters uparams) = Inr uresult \<and> GetValue uresult = Some users
      \<and> continuationFails (Users_Next client) uresult err
      \<longrightarrow> users_Get client uparams = Some (Inl err))
   \<and> (Applications_Get client (defaultParameters aparams) = Inr aresult
      \<and> GetValue aresult = Some applications
      \<and> continuationFails (Applications_Next client) aresult err
      \<longrightarrow> applications_Get client aparams = Some (Inl err))
   \<and> (Sites_Get client (defaultSiteParameters sparams) = Inr sresult \<and> GetValue sresult = Some sites
      \<and> continuationFails (Sites_Next client) sresult err
      \<longrightarrow> sites_Get decodeEntities client sparams
            = Some (Inl (Errorf ''error iterating over sites: '' err)))"
proof (intro conjI impI)
  assume a: "Users_Get client (defaultParameters uparams) = Inr uresult \<and> GetValue uresult = Some users
      \<and> continuationFails (Users_Next client) uresult err"
  then have "continuationFails (Users_Next client) uresult err"
    by simp
  then have "\<exists>reached. Iterate (Users_Next client) (\<lambda>user d. upsert (convertUserToMap user) d) uresult
       (foldl (\<lambda>d user. upsert (convertUserToMap user) d) [] users) = Some (reached, Some err)"
    by (rule Iterate_fails)
  then obtain reached where
    "Iterate (Users_Next client) (\<lambda>user d. upsert (convertUserToMap user) d) uresult
       (foldl (\<lambda>d user. upsert (convertUserToMap user) d) [] users) = Some (reached, Some err)"
    by blast
  with a show "users_Get client uparams = Some (Inl err)"
    by (simp add: users_Get_def defaultParameters_def)
next
  assume a: "Applications_Get client (defaultParameters aparams) = Inr aresult
      \<and> GetValue aresult = Some applications
      \<and> continuationFails (Applications_Next client) aresult err"
  then have "continuationFails (Applications_Next client) aresult err"
    by simp
  then have "\<exists>reached. Iterate (Applications_Next client) (\<lambda>application d. upsert (convertApplicationToMap application) d)
       aresult (foldl (\<lambda>d application. upsert (convertApplicationToMap application) d) [] applications)
     = Some (reached, Some err)"
    by (rule Iterate_fails)
  then obtain reached where
    "Iterate (Applications_Next client) (\<lambda>application d. upsert (convertApplicationToMap application) d)
       aresult (foldl (\<lambda>d application. upsert (convertApplicationToMap application) d) [] applications)
     = Some (reached, Some err)"
    by blast
  with a show "applications_Get client aparams = Some (Inl err)"
    by (simp add: applications_Get_def defaultParameters_def)
next
  assume a: "Sites_Get client (defaultSiteParameters sparams) = Inr sresult \<and> GetValue sresult = Some sites
      \<and> continuationFails (Sites_Next client) sresult err"
  then have "continuationFails (Sites_Next client) sresult err"
    by simp
  then have "\<exists>reached. Iterate (Sites_Next client) (\<lambda>site d. upsert (convertSiteToMap site) d) sresult
       (foldl (\<lambda>d site. upsert (convertSiteToMap site) d) [] sites) = Some (reached, Some err)"
    by (rule Iterate_fails)
  then obtain reached where r:
    "Iterate (Sites_Next client) (\<lambda>site d. upsert (convertSiteToMap site) d) sresult
       (foldl (\<lambda>d site. upsert (convertSiteToMap site) d) [] sites) = Some (reached, Some err)"
    by blast
  from a obtain link where l: "GetOdataNextLink sresult = Some link" "link \<noteq> []"
    by (auto elim: continuationFails.cases)
  from a r l have "collectSites client sparams = Some (Inl (Errorf ''error iterating over sites: '' err))"
    by (simp add: collectSites_def defaultSiteParameters_def)
  then show "sites_Get decodeEntities client sparams
               = Some (Inl (Errorf ''error iterating over sites: '' err))"
    by (simp add: sites_Get_def)
qed

theorem continuation_failure_returns_error_only_witness:
  "users_Get brokenClient None = Some (Inl (Err ''timeout''))
   \<and> applications_Get brokenClient None = Some (Inl (Err ''timeout''))
   \<and> sites_Get id brokenClient None = Some (Inl (Err ''error iterating over sites: timeout''))"
proof -
  have u: "continuationFails (Users_Next brokenClient) firstUsers (Err ''timeout'')"
    by (rule continuationFails.here [where link = "''users?page=2''"])
       (simp_all add: brokenClient_def firstUsers_def)
  have a: "continuationFails (Applications_Next brokenClient) firstApplications (Err ''timeout'')"
    by (rule continuationFails.here [where link = "''applications?page=2''"])
       (simp_all add: brokenClient_def firstApplications_def)
  have s: "continuationFails (Sites_Next brokenClient) firstSites (Err ''timeout'')"
    by (rule continuationFails.here [where link = "''sites?page=2''"])
       (simp_all add: brokenClient_def firstSites_def)
  show ?thesis
    using u a s
      continuation_failure_returns_error_only
        [where client = brokenClient and uparams = None and uresult = firstUsers
           and users = "[userOverride]" and err = "Err ''timeout''"
           and aparams = None and aresult = firstApplications
           and applications = "[applicationOverride]"
           and sparams = None and sresult = firstSites and sites = "[siteOverride]"
           and decodeEntities = id]
    by (simp add: brokenClient_def firstUsers_def firstApplications_def firstSites_def)
qed


lemma upsert_distinct: "distinct (map fst d) \<Longrightarrow> distinct (map fst (upsert e d))"
  by (simp add: upsert_def distinct_update)

lemma map_of_upsert: "map_of (upsert e d) = (map_of d)(fst e \<mapsto> snd e)"
  by (simp add: upsert_def update_conv')

lemma foldl_upsert_distinct:
  "distinct (map fst d) \<Longrightarrow> distinct (map fst (foldl (\<lambda>d r. upsert (f r) d) d rs))"
  by (induction rs arbitrary: d) (simp_all add: upsert_distinct)

lemma foldl_upsert_other_keys:
  "\<forall>y\<in>set rs. fst (f y) \<noteq> k \<Longrightarrow> map_of (foldl (\<lambda>d r. upsert (f r) d) d rs) k = map_of d k"
  by (induction rs arbitrary: d) (auto simp: map_of_upsert)

lemma foldl_upsert_last_wins:
  assumes "\<forall>y\<in>set later. fst (f y) \<noteq> fst (f r)"
  shows "map_of (foldl (\<lambda>d x. upsert (f x) d) d (earlier @ r # later)) (fst (f r)) = Some (snd (f r))"
proof -
  have "map_of (foldl (\<lambda>d x. upsert (f x) d) d (earlier @ r # later)) (fst (f r))
          = map_of (upsert (f r) (foldl (\<lambda>d x. upsert (f x) d) d earlier)) (fst (f r))"
    using assms by (simp add: foldl_upsert_other_keys)
  then show ?thesis
    by (simp add: map_of_upsert)
qed

lemma single_entry:
  "distinct (map fst l) \<Longrightarrow> map_of l k = Some v \<Longrightarrow> length (filter (\<lambda>entry. fst entry = k) l) = 1"
proof (induction l)
  case Nil
  then show ?case by simp
next
  case (Cons a l)
  show ?case
  proof (cases "fst a = k")
    case True
    with Cons.prems have "k \<notin> fst ` set l"
      by auto
    then have "filter (\<lambda>entry. fst entry = k) l = []"
      by (auto simp: filter_empty_conv)
    with True show ?thesis
      by simp
  next
    case False
    with Cons show ?thesis
      by (cases a) auto
  qed
qed

lemma empty_key_last_wins:
  assumes "site_GetId r = None"
    and "\<forall>y\<in>set later. fst (convertSiteToMap y) \<noteq> []"
    and "distinct (map fst sitesData)"
  shows "fst (convertSiteToMap r) = []
       \<and> map_of (foldl (\<lambda>d site. upsert (convertSiteToMap site) d) sitesData (earlier @ r # later)) []
           = Some (snd (convertSiteToMap r))
       \<and> length (filter (\<lambda>entry. fst entry = [])
                   (foldl (\<lambda>d site. upsert (convertSiteToMap site) d) sitesData (earlier @ r # later)))
           = 1"
proof -
  let ?data = "foldl (\<lambda>d site. upsert (convertSiteToMap site) d) sitesData (earlier @ r # later)"
  from assms(1) have key: "fst (convertSiteToMap r) = []"
    by (simp add: convertSiteToMap_def Let_def)
  with assms(2) have "\<forall>y\<in>set later. fst (convertSiteToMap y) \<noteq> fst (convertSiteToMap r)"
    by simp
  from foldl_upsert_last_wins [OF this, of sitesData earlier] key
  have stored: "map_of ?data [] = Some (snd (convertSiteToMap r))"
    by simp
  from assms(3) have "distinct (map fst ?data)"
    by (rule foldl_upsert_distinct)
  from single_entry [OF this stored] key stored show ?thesis
    by simp
qed

lemma collectSites_foldl:
  assumes "collectSites client params = Some (Inr (Some data))"
  shows "\<exists>processed. data = foldl (\<lambda>d site. upsert (convertSiteToMap site) d) [] processed"
proof -
  let ?f = "\<lambda>d site. upsert (convertSiteToMap site) d"
  from assms obtain result sites where
    r: "Sites_Get client (defaultSiteParameters params) = Inr result" "GetValue result = Some sites"
    by (auto simp: collectSites_def defaultSiteParameters_def Let_def split: sum.splits option.splits)
  show ?thesis
  proof (cases "\<exists>link. GetOdataNextLink result = Some link \<and> link \<noteq> []")
    case False
    with assms r have "data = foldl ?f [] sites"
      by (auto simp: collectSites_def defaultSiteParameters_def Let_def split: option.splits if_splits)
    then show ?thesis
      by blast
  next
    case True
    with assms r have
      "Iterate (Sites_Next client) (\<lambda>site d. upsert (convertSiteToMap site) d) result (foldl ?f [] sites)
         = Some (data, None)"
      by (auto simp: collectSites_def defaultSiteParameters_def Let_def split: option.splits if_splits)
    from Iterate_foldl [OF this] obtain records where
      "data = foldl (\<lambda>a r. upsert (convertSiteToMap r) a) (foldl ?f [] sites) records"
      by auto
    then have "data = foldl ?f [] (sites @ records)"
      by simp
    then show ?thesis
      by blast
  qed
qed

lemma Iterate_visits:
  "visits fetchNext page records
     \<Longrightarrow> Iterate fetchNext callback page acc = Some (foldl (\<lambda>a r. callback r a) acc records, None)"
proof (induction arbitrary: acc rule: visits.induct)
  case (last_page page)
  then show ?case
    by (subst Iterate.simps) auto
next
  case (next_page page link nextPage records)
  then show ?case
    by (subst Iterate.simps) simp
qed

text \<open>
  C10: a site without identifier is normalized to the identifier \<^verbatim>\<open>""\<close>. Take a run
  in which no request fails, and the records it stores in order: those of the first page,
  then those of the pages that follow. Whatever records came before (\<open>earlier\<close>, with or
  without identifier), when the run has stored a site \<open>r\<close> without identifier and, after
  it, only records with other keys, the collection it returns has exactly one entry under
  \<^verbatim>\<open>""\<close>, and it is the normalized \<open>r\<close>.
\<close>

theorem sites_without_id_share_the_empty_key:
  assumes "Sites_Get client (defaultSiteParameters params) = Inr result"
    and "GetValue result = Some sites"
    and "visits (Sites_Next client) result further"
    and "sites @ further = earlier @ r # later"
    and "site_GetId r = None"
    and "\<forall>y\<in>set later. fst (convertSiteToMap y) \<noteq> []"
  shows "fst (convertSiteToMap r) = []
       \<and> (\<exists>sitesData. collectSites client params = Some (Inr (Some sitesData))
             \<and> map_of sitesData [] = Some (snd (convertSiteToMap r))
             \<and> length (filter (\<lambda>entry. fst entry = []) sitesData) = 1)"
proof -
  let ?f = "\<lambda>d site. upsert (convertSiteToMap site) d"
  have "Iterate (Sites_Next client) (\<lambda>site d. upsert (convertSiteToMap site) d) result (foldl ?f [] sites)
          = Some (foldl ?f (foldl ?f [] sites) further, None)"
    using assms(3) by (rule Iterate_visits)
  moreover have "further = []" if "GetOdataNextLink result = None \<or> GetOdataNextLink result = Some []"
    using assms(3) that by (auto elim: visits.cases)
  ultimately have "collectSites client params = Some (Inr (Some (foldl ?f [] (sites @ further))))"
    using assms(1,2)
    by (cases "GetOdataNextLink result") (simp_all add: collectSites_def Let_def)
  with assms(4) have run: "collectSites client params = Some (Inr (Some (foldl ?f [] (earlier @ r # later))))"
    by simp
  from empty_key_last_wins [OF assms(5,6), of "[]" earlier] run show ?thesis
    by simp
qed

theorem sites_without_id_share_the_empty_key_witness:
  "fst (convertSiteToMap siteNoIdLast) = []
   \<and> (\<exists>sitesData. collectSites twoPageClient None = Some (Inr (Some sitesData))
         \<and> map_of sitesData [] = Some (snd (convertSiteToMap siteNoIdLast))
         \<and> length (filter (\<lambda>entry. fst entry = []) sitesData) = 1)"
proof -
  have "visits (Sites_Next twoPageClient) secondSites []"
    by (rule visits.last_page) (simp add: secondSites_def)
  from visits.next_page [where link = "''sites?page=2''", OF _ _ _ this,
         of "\<lparr>GetValue = Some [siteNoIdFirst], GetOdataNextLink = Some ''sites?page=2''\<rparr>"]
  have v: "visits (Sites_Next twoPageClient)
             \<lparr>GetValue = Some [siteNoIdFirst], GetOdataNextLink = Some ''sites?page=2''\<rparr>
             [siteNoIdLast, siteOverride]"
    by (simp add: twoPageClient_def brokenClient_def secondSites_def)
  have "fst (convertSiteToMap siteOverride) = ''s1''"
    by (simp add: convertSiteToMap_def siteOverride_def blankSite_def)
  then show ?thesis
    using sites_without_id_share_the_empty_key
      [of twoPageClient None
          "\<lparr>GetValue = Some [siteNoIdFirst], GetOdataNextLink = Some ''sites?page=2''\<rparr>"
          "[siteNoIdFirst]" "[siteNoIdLast, siteOverride]" "[siteNoIdFirst]" siteNoIdLast
          "[siteOverride]", OF _ _ v]
    by (simp add: twoPageClient_def brokenClient_def siteNoIdLast_def blankSite_def)
qed

section \<open>Bulk site enrichment: a page whose content cannot be fetched\<close>

lemma pagesLoop_entries:
  "\<forall>q\<in>set pages. rendersWithoutPanic decodeEntities client siteId q
     \<Longrightarrow> pagesLoop decodeEntities client siteId pages pageData
         = Inr (foldl (\<lambda>d q. d(fst (convertSitePageToMap q) \<mapsto> pageEntry decodeEntities client siteId q))
                  pageData pages)"
proof (induction pages arbitrary: pageData)
  case Nil
  then show ?case by simp
next
  case (Cons page pages)
  let ?c = "getPageContent decodeEntities (Page_Get client) siteId (fst (convertSitePageToMap page)) ''markdown''"
  from Cons.prems have rest: "\<forall>q\<in>set pages. rendersWithoutPanic decodeEntities client siteId q"
    and here: "?c \<noteq> Inl NilDereference"
    by (simp_all add: rendersWithoutPanic_def)
  let ?g = "\<lambda>d q. d(fst (convertSitePageToMap q) \<mapsto> pageEntry decodeEntities client siteId q)"
  have "pagesLoop decodeEntities client siteId (page # pages) pageData
          = pagesLoop decodeEntities client siteId pages (?g pageData page)"
  proof (cases ?c)
    case (Inr content)
    then have "AMap ((snd (convertSitePageToMap page))(''content'' \<mapsto> AString content))
                 = pageEntry decodeEntities client siteId page"
      by (simp add: pageEntry_def)
    with Inr show ?thesis
      by simp
  next
    case (Inl err)
    with here obtain msg where msg: "err = Err msg"
      by (cases err) auto
    with Inl have "AMap ((snd (convertSitePageToMap page))
                           (''content'' \<mapsto> AString ''Error fetching content''))
                     = pageEntry decodeEntities client siteId page"
      by (simp add: pageEntry_def)
    with Inl msg show ?thesis
      by simp
  qed
  also have "\<dots> = Inr (foldl ?g (?g pageData page) pages)"
    by (rule Cons.IH [OF rest])
  also have "\<dots> = Inr (foldl ?g pageData (page # pages))"
    by simp
  finally show ?case .
qed

lemma foldl_update_unique:
  "p \<in> set xs \<Longrightarrow> \<forall>q\<in>set xs. key q = key p \<longrightarrow> q = p
     \<Longrightarrow> foldl (\<lambda>d q. d(key q \<mapsto> f q)) d xs (key p) = Some (f p)"
proof (induction xs arbitrary: d rule: rev_induct)
  case Nil
  then show ?case by simp
next
  case (snoc x xs)
  show ?case
  proof (cases "key x = key p")
    case True
    with snoc.prems have "x = p" by simp
    then show ?thesis by simp
  next
    case False
    with snoc.prems have "p \<in> set xs" "\<forall>q\<in>set xs. key q = key p \<longrightarrow> q = p"
      by auto
    from snoc.IH [OF this] False show ?thesis
      by simp
  qed
qed


lemma enrichSite_pages:
  assumes "GetSubsites client siteId = Some (subsites, None)"
    and "GetPages client siteId = Some (pages, None)"
    and "\<forall>q\<in>set pages. rendersWithoutPanic decodeEntities client siteId q"
  shows "\<exists>enrichedSite.
           enrichSite decodeEntities client siteId site = Some (Inr enrichedSite)
         \<and> enrichedSite ''pages''
             = Some (AMap (foldl (\<lambda>d q. d(fst (convertSitePageToMap q)
                                            \<mapsto> pageEntry decodeEntities client siteId q))
                             Map.empty pages))"
  using assms(1,2) pagesLoop_entries [OF assms(3), of Map.empty]
  by (simp add: enrichSite_def Let_def)

lemma enrichSite_completes:
  assumes "siteCompletes decodeEntities client siteId"
  shows "\<exists>enrichedSite. enrichSite decodeEntities client siteId site = Some (Inr enrichedSite)"
proof (cases "GetSubsites client siteId")
  case None
  with assms show ?thesis
    by (simp add: siteCompletes_def)
next
  case (Some s)
  obtain subsites serr where s: "s = (subsites, serr)" by (cases s)
  show ?thesis
  proof (cases serr)
    case (Some err)
    with \<open>GetSubsites client siteId = Some s\<close> s show ?thesis
      by (simp add: enrichSite_def)
  next
    case None
    note noerr = this
    show ?thesis
    proof (cases "GetPages client siteId")
      case None
      with assms \<open>GetSubsites client siteId = Some s\<close> s noerr show ?thesis
        by (simp add: siteCompletes_def)
    next
      case (Some p)
      obtain pages perr where p: "p = (pages, perr)" by (cases p)
      show ?thesis
      proof (cases perr)
        case (Some err)
        with \<open>GetSubsites client siteId = Some s\<close> s noerr \<open>GetPages client siteId = Some p\<close> p
        show ?thesis
          by (simp add: enrichSite_def Let_def)
      next
        case None
        with assms \<open>GetSubsites client siteId = Some s\<close> s noerr \<open>GetPages client siteId = Some p\<close> p
        have "\<forall>q\<in>set pages. rendersWithoutPanic decodeEntities client siteId q"
          by (simp add: siteCompletes_def list_all_iff)
        from enrichSite_pages [OF _ _ this, of subsites site]
          \<open>GetSubsites client siteId = Some s\<close> s noerr \<open>GetPages client siteId = Some p\<close> p None
        show ?thesis
          by blast
      qed
    qed
  qed
qed

lemma enrichSites_all:
  "\<forall>e\<in>set sitesData. siteCompletes decodeEntities client (fst e)
     \<Longrightarrow> \<exists>out. enrichSites decodeEntities client sitesData = Some (Inr out)
             \<and> list_all2 (\<lambda>e e'. fst e' = fst e
                                 \<and> enrichSite decodeEntities client (fst e) (snd e) = Some (Inr (snd e')))
                  sitesData out"
proof (induction sitesData)
  case Nil
  then show ?case by simp
next
  case (Cons entry entries)
  from Cons.prems have "siteCompletes decodeEntities client (fst entry)"
    by simp
  from enrichSite_completes [OF this] obtain enrichedSite where
    e: "enrichSite decodeEntities client (fst entry) (snd entry) = Some (Inr enrichedSite)"
    by blast
  from Cons obtain others where
    o: "enrichSites decodeEntities client entries = Some (Inr others)"
       "list_all2 (\<lambda>e e'. fst e' = fst e
                          \<and> enrichSite decodeEntities client (fst e) (snd e) = Some (Inr (snd e')))
          entries others"
    by auto
  from e o show ?case
    by simp
qed

lemma map_of_list_all2:
  "list_all2 (\<lambda>e e'. fst e' = fst e \<and> R e (snd e')) xs ys \<Longrightarrow> map_of xs k = Some v
     \<Longrightarrow> \<exists>w. map_of ys k = Some w \<and> R (k, v) w"
proof (induction xs ys rule: list_all2_induct)
  case Nil
  then show ?case by simp
next
  case (Cons x xs y ys)
  then show ?case
    by (cases x; cases y) (auto split: if_splits)
qed


text \<open>
  C4: take a run of \<^verbatim>\<open>Get\<close> for sites in which the collection of the sites was gathered
  and the enrichment of every site comes to an end, and a site of which the subsites and
  the pages \<open>pages\<close> were fetched. Then the run returns the output mapping, whatever
  errors the page content service returned; in it, the entry of every page of the site
  (one whose identifier no other page of the site has) carries under \<^verbatim>\<open>content\<close> the
  document rendered for that page, or \<^verbatim>\<open>Error fetching content\<close> when the page content
  service failed for it; and every site of the collection has its own enriched entry.
\<close>

theorem page_content_failure_becomes_sentinel:
  assumes "collectSites client params = Some (Inr (Some sitesData))"
    and "\<forall>e\<in>set sitesData. siteCompletes decodeEntities client (fst e)"
    and "map_of sitesData siteId = Some site"
    and "GetSubsites client siteId = Some (subsites, None)"
    and "GetPages client siteId = Some (pages, None)"
    and "page \<in> set pages"
    and "\<forall>q\<in>set pages. fst (convertSitePageToMap q) = fst (convertSitePageToMap page) \<longrightarrow> q = page"
  shows "\<exists>out enrichedSite pageData.
           sites_Get decodeEntities client params = Some (Inr (Some out))
         \<and> map_of out siteId = Some enrichedSite
         \<and> enrichedSite ''pages'' = Some (AMap pageData)
         \<and> pageData (fst (convertSitePageToMap page))
             = Some (AMap ((snd (convertSitePageToMap page))
                             (''content'' \<mapsto>
                                AString (case getPageContent decodeEntities (Page_Get client) siteId
                                                (fst (convertSitePageToMap page)) ''markdown'' of
                                           Inr content \<Rightarrow> content
                                         | Inl err \<Rightarrow> ''Error fetching content''))))
         \<and> (\<forall>e\<in>set sitesData.
               \<exists>s. map_of out (fst e) = Some s
                   \<and> enrichSite decodeEntities client (fst e) (snd e) = Some (Inr s))"
proof -
  let ?R = "\<lambda>e s. enrichSite decodeEntities client (fst e) (snd e) = Some (Inr s)"
  let ?g = "\<lambda>d q. d(fst (convertSitePageToMap q) \<mapsto> pageEntry decodeEntities client siteId q)"
  from enrichSites_all [OF assms(2)] obtain out where
    out: "enrichSites decodeEntities client sitesData = Some (Inr out)"
    and rel: "list_all2 (\<lambda>e e'. fst e' = fst e \<and> ?R e (snd e')) sitesData out"
    by blast
  from assms(1) out have run: "sites_Get decodeEntities client params = Some (Inr (Some out))"
    by (simp add: sites_Get_def)
  from map_of_list_all2 [of ?R, OF rel assms(3)] obtain enrichedSite where
    es: "map_of out siteId = Some enrichedSite"
        "enrichSite decodeEntities client siteId site = Some (Inr enrichedSite)"
    by auto
  from assms(3) have "(siteId, site) \<in> set sitesData"
    by (rule map_of_SomeD)
  with assms(2) have "siteCompletes decodeEntities client siteId"
    by force
  with assms(4,5) have nopanic: "\<forall>q\<in>set pages. rendersWithoutPanic decodeEntities client siteId q"
    by (simp add: siteCompletes_def list_all_iff)
  from enrichSite_pages [OF assms(4,5) nopanic, of site] es(2)
  have pages: "enrichedSite ''pages'' = Some (AMap (foldl ?g Map.empty pages))"
    by auto
  have entry: "foldl ?g Map.empty pages (fst (convertSitePageToMap page))
                 = Some (pageEntry decodeEntities client siteId page)"
    using assms(6,7) by (rule foldl_update_unique)
  from collectSites_foldl [OF assms(1)] have "distinct (map fst sitesData)"
    by (auto intro: foldl_upsert_distinct)
  then have others: "\<forall>e\<in>set sitesData. \<exists>s. map_of out (fst e) = Some s \<and> ?R e s"
    using map_of_list_all2 [of ?R, OF rel] by fastforce
  from run es(1) pages entry others show ?thesis
    unfolding pageEntry_def by blast
qed

lemma siteOverride_converted: "fst (convertSiteToMap siteOverride) = ''s1''"
  by (simp add: convertSiteToMap_def siteOverride_def blankSite_def)

lemma pageGood_converted: "fst (convertSitePageToMap pageGood) = ''good''"
  by (simp add: convertSitePageToMap_def pageGood_def pageEmpty_def blankPage_def)

lemma pageBad_converted: "fst (convertSitePageToMap pageBad) = ''bad''"
  by (simp add: convertSitePageToMap_def pageBad_def blankPage_def)

lemma pageGood_rendered:
  "renderPage id ''markdown'' pageGood
     = Inr ''*No detailed content available. Use the page URL to view in browser.*''"
  by (simp add: renderPage_def walkCanvasLayout_def walkHorizontalSections_def
        walkVerticalSection_def pageGood_def pageEmpty_def blankPage_def)

theorem page_content_failure_becomes_sentinel_witness:
  "\<exists>out enrichedSite pageData.
     sites_Get id pagesClient None = Some (Inr (Some out))
   \<and> map_of out ''s1'' = Some enrichedSite
   \<and> enrichedSite ''pages'' = Some (AMap pageData)
   \<and> pageData ''bad''
       = Some (AMap ((snd (convertSitePageToMap pageBad))
                       (''content'' \<mapsto> AString ''Error fetching content'')))"
proof -
  have collect: "collectSites pagesClient None = Some (Inr (Some [(''s1'', snd (convertSiteToMap siteOverride))]))"
    by (simp add: collectSites_def pagesClient_def upsert_def siteOverride_converted prod_eq_iff)
  have subsites: "GetSubsites pagesClient ''s1'' = Some ([], None)"
    by (simp add: GetSubsites_def pagesClient_def)
  have pages: "GetPages pagesClient ''s1'' = Some ([pageGood, pageBad], None)"
    by (simp add: GetPages_def pagesClient_def)
  have good: "getPageContent id (Page_Get pagesClient) ''s1'' ''good'' ''markdown''
                = Inr ''*No detailed content available. Use the page URL to view in browser.*''"
    by (simp add: getPageContent_def pagesClient_def pageGood_rendered)
  have bad: "getPageContent id (Page_Get pagesClient) ''s1'' ''bad'' ''markdown''
               = Inl (Err ''error getting page content: not found'')"
    by (simp add: getPageContent_def pagesClient_def)
  have completes: "\<forall>e\<in>set [(''s1'', snd (convertSiteToMap siteOverride))].
                     siteCompletes id pagesClient (fst e)"
    by (simp add: siteCompletes_def subsites pages rendersWithoutPanic_def
          pageGood_converted pageBad_converted good bad)
  have unique: "\<forall>q\<in>set [pageGood, pageBad].
                  fst (convertSitePageToMap q) = fst (convertSitePageToMap pageBad) \<longrightarrow> q = pageBad"
    by (simp add: pageGood_converted pageBad_converted)
  from page_content_failure_becomes_sentinel
         [OF collect completes _ subsites pages _ unique, of "snd (convertSiteToMap siteOverride)"]
  show ?thesis
    by (simp add: pageBad_converted bad) blast
qed

end
